theory Spec2Isabelle
  imports Complex_Main
begin

section \<open>Data model\<close>

text \<open>
  The analysis functions of \<^verbatim>\<open>technical_analysis.py\<close> take a pandas frame whose columns
  are \<^verbatim>\<open>date, open, high, low, close, volume\<close> and whose index is the default range
  index \<^verbatim>\<open>0 .. n-1\<close> (every fetcher calls \<^verbatim>\<open>reset_index\<close> before returning it).
  A frame is modelled as the list of its rows. Prices are real numbers: rounding and
  non-finite inputs are not part of the model. A timestamp is a number of days.
\<close>

type_synonym timestamp = nat

record bar =
  date :: timestamp
  open_price :: real
  high :: real
  low :: real
  close :: real
  volume :: real

type_synonym dataframe = "bar list"

text \<open>A level, a swing point and a signal event are all \<^verbatim>\<open>(date, price)\<close> tuples.\<close>

type_synonym point = "timestamp \<times> real"

datatype py_error =
  KeyError | IndexError | AttributeError | OverflowError | ValueError | TypeError

text \<open>
  \<^verbatim>\<open>df['low'][i]\<close> looks the label \<^verbatim>\<open>i\<close> up in the range index: a label outside
  \<^verbatim>\<open>0 .. n-1\<close>, negative ones included, raises \<^verbatim>\<open>KeyError\<close>.
  \<^verbatim>\<open>df['close'].iloc[i]\<close> is positional: a negative position counts from the end, and
  a position out of bounds raises \<^verbatim>\<open>IndexError\<close>.
\<close>

definition getitem :: "'a list \<Rightarrow> int \<Rightarrow> py_error + 'a" where
  "getitem col i =
     (if 0 \<le> i \<and> i < int (length col) then Inr (col ! nat i) else Inl KeyError)"

definition iloc :: "'a list \<Rightarrow> int \<Rightarrow> py_error + 'a" where
  "iloc col i =
     (let n = int (length col); j = (if i < 0 then n + i else i)
      in if 0 \<le> j \<and> j < n then Inr (col ! nat j) else Inl IndexError)"

text \<open>Sequencing of two computations, the first of which may raise.\<close>

definition try_bind :: "py_error + 'a \<Rightarrow> ('a \<Rightarrow> py_error + 'b) \<Rightarrow> py_error + 'b" where
  "try_bind m f = (case m of Inl e \<Rightarrow> Inl e | Inr x \<Rightarrow> f x)"

text \<open>\<^verbatim>\<open>range(a, b)\<close> on Python integers.\<close>

definition py_range :: "int \<Rightarrow> int \<Rightarrow> int list" where
  "py_range a b = [a..b - 1]"

text \<open>
  \<^verbatim>\<open>all(f(j) for j in js)\<close>: the generator is consumed from the left, stops at the first
  false element, and an element that raises ends the evaluation with that exception.
\<close>

fun py_all :: "('j \<Rightarrow> py_error + bool) \<Rightarrow> 'j list \<Rightarrow> py_error + bool" where
  "py_all f [] = Inr True"
| "py_all f (j # js) =
     (case f j of
        Inl e \<Rightarrow> Inl e
      | Inr b \<Rightarrow> if b then py_all f js else Inr False)"

section \<open>Extremum scanner\<close>

text \<open>\<^verbatim>\<open>col[i] <= col[k]\<close> and \<^verbatim>\<open>col[i] >= col[k]\<close>, both operands read by label.\<close>

definition le_at :: "real list \<Rightarrow> int \<Rightarrow> int \<Rightarrow> py_error + bool" where
  "le_at col i k =
     try_bind (getitem col i) (\<lambda>a. try_bind (getitem col k) (\<lambda>b. Inr (a \<le> b)))"

definition ge_at :: "real list \<Rightarrow> int \<Rightarrow> int \<Rightarrow> py_error + bool" where
  "ge_at col i k =
     try_bind (getitem col i) (\<lambda>a. try_bind (getitem col k) (\<lambda>b. Inr (a \<ge> b)))"

text \<open>
  The condition of the scanning loops,
  \<^verbatim>\<open>all(col[i] <= col[i-j] for j in range(1, window+1)) and
         all(col[i] <= col[i+j] for j in range(1, window+1))\<close>,
  with \<^verbatim>\<open>and\<close> evaluating its right operand only when the left one is true.
\<close>

definition local_min_test :: "real list \<Rightarrow> int \<Rightarrow> int \<Rightarrow> py_error + bool" where
  "local_min_test col window i =
     try_bind (py_all (\<lambda>j. le_at col i (i - j)) (py_range 1 (window + 1)))
       (\<lambda>b. if b then py_all (\<lambda>j. le_at col i (i + j)) (py_range 1 (window + 1))
            else Inr False)"

definition local_max_test :: "real list \<Rightarrow> int \<Rightarrow> int \<Rightarrow> py_error + bool" where
  "local_max_test col window i =
     try_bind (py_all (\<lambda>j. ge_at col i (i - j)) (py_range 1 (window + 1)))
       (\<lambda>b. if b then py_all (\<lambda>j. ge_at col i (i + j)) (py_range 1 (window + 1))
            else Inr False)"

text \<open>
  The two loops of \<^verbatim>\<open>calculate_support_resistance\<close>: each visits the indices in
  order and appends \<^verbatim>\<open>(df['date'][i], df['low'][i])\<close> (or the high) for an index
  that passes the test.
\<close>

fun supports_loop :: "dataframe \<Rightarrow> int \<Rightarrow> int list \<Rightarrow> point list \<Rightarrow> py_error + point list" where
  "supports_loop df window [] supports = Inr supports"
| "supports_loop df window (i # is) supports =
     (case local_min_test (map low df) window i of
        Inl e \<Rightarrow> Inl e
      | Inr b \<Rightarrow>
          if b then
            (case getitem (map date df) i of
               Inl e \<Rightarrow> Inl e
             | Inr d \<Rightarrow>
                 (case getitem (map low df) i of
                    Inl e \<Rightarrow> Inl e
                  | Inr p \<Rightarrow> supports_loop df window is (supports @ [(d, p)])))
          else supports_loop df window is supports)"

fun resistances_loop :: "dataframe \<Rightarrow> int \<Rightarrow> int list \<Rightarrow> point list \<Rightarrow> py_error + point list" where
  "resistances_loop df window [] resistances = Inr resistances"
| "resistances_loop df window (i # is) resistances =
     (case local_max_test (map high df) window i of
        Inl e \<Rightarrow> Inl e
      | Inr b \<Rightarrow>
          if b then
            (case getitem (map date df) i of
               Inl e \<Rightarrow> Inl e
             | Inr d \<Rightarrow>
                 (case getitem (map high df) i of
                    Inl e \<Rightarrow> Inl e
                  | Inr p \<Rightarrow> resistances_loop df window is (resistances @ [(d, p)])))
          else resistances_loop df window is resistances)"

text \<open>The \<^verbatim>\<open>try\<close> block of \<^verbatim>\<open>calculate_support_resistance\<close>.\<close>

definition calculate_support_resistance_try ::
  "dataframe \<Rightarrow> int \<Rightarrow> py_error + (point list \<times> point list)" where
  "calculate_support_resistance_try df window =
     try_bind (supports_loop df window (py_range window (int (length df) - window)) [])
       (\<lambda>supports.
          try_bind (resistances_loop df window (py_range window (int (length df) - window)) [])
            (\<lambda>resistances. Inr (supports, resistances)))"

text \<open>The whole function: any exception is logged and \<^verbatim>\<open>([], [])\<close> is returned.\<close>

definition calculate_support_resistance :: "dataframe \<Rightarrow> int \<Rightarrow> point list \<times> point list" where
  "calculate_support_resistance df window =
     (case calculate_support_resistance_try df window of
        Inl e \<Rightarrow> ([], [])
      | Inr r \<Rightarrow> r)"

section \<open>Swing points and ABC patterns\<close>

text \<open>
  One visit of index \<^verbatim>\<open>i\<close> by the loop of \<^verbatim>\<open>identify_elliot_waves\<close>: first the
  minimum test on \<^verbatim>\<open>low\<close>, appending to \<^verbatim>\<open>waves\<close> and \<^verbatim>\<open>wave_types\<close>, then the
  maximum test on \<^verbatim>\<open>high\<close>, appending to the lists as the first test left them.
  The window is the constant 5 (\<^verbatim>\<open>range(1, 6)\<close>).
\<close>

definition wave_min_step ::
  "dataframe \<Rightarrow> int \<Rightarrow> point list \<times> string list \<Rightarrow> py_error + (point list \<times> string list)" where
  "wave_min_step df i st =
     (case st of (waves, wave_types) \<Rightarrow>
        try_bind (local_min_test (map low df) 5 i) (\<lambda>b.
          if b then
            try_bind (getitem (map date df) i) (\<lambda>d.
              try_bind (getitem (map low df) i) (\<lambda>p.
                Inr (waves @ [(d, p)], wave_types @ [''min''])))
          else Inr (waves, wave_types)))"

definition wave_max_step ::
  "dataframe \<Rightarrow> int \<Rightarrow> point list \<times> string list \<Rightarrow> py_error + (point list \<times> string list)" where
  "wave_max_step df i st =
     (case st of (waves, wave_types) \<Rightarrow>
        try_bind (local_max_test (map high df) 5 i) (\<lambda>b.
          if b then
            try_bind (getitem (map date df) i) (\<lambda>d.
              try_bind (getitem (map high df) i) (\<lambda>p.
                Inr (waves @ [(d, p)], wave_types @ [''max''])))
          else Inr (waves, wave_types)))"

fun waves_loop ::
  "dataframe \<Rightarrow> int list \<Rightarrow> point list \<times> string list \<Rightarrow> py_error + (point list \<times> string list)" where
  "waves_loop df [] st = Inr st"
| "waves_loop df (i # is) st =
     (case wave_min_step df i st of
        Inl e \<Rightarrow> Inl e
      | Inr st1 \<Rightarrow>
          (case wave_max_step df i st1 of
             Inl e \<Rightarrow> Inl e
           | Inr st2 \<Rightarrow> waves_loop df is st2))"

definition identify_elliot_waves_try :: "dataframe \<Rightarrow> py_error + (point list \<times> string list)" where
  "identify_elliot_waves_try df = waves_loop df (py_range 5 (int (length df) - 5)) ([], [])"

definition identify_elliot_waves :: "dataframe \<Rightarrow> point list \<times> string list" where
  "identify_elliot_waves df =
     (case identify_elliot_waves_try df of Inl e \<Rightarrow> ([], []) | Inr r \<Rightarrow> r)"

text \<open>
  The first loop of \<^verbatim>\<open>identify_abc_patterns\<close> is the same scan, kept in three parallel
  lists \<^verbatim>\<open>extrema_dates\<close>, \<^verbatim>\<open>extrema_prices\<close>, \<^verbatim>\<open>extrema_types\<close>.
\<close>

type_synonym extrema = "timestamp list \<times> real list \<times> string list"

definition extrema_min_step :: "dataframe \<Rightarrow> int \<Rightarrow> extrema \<Rightarrow> py_error + extrema" where
  "extrema_min_step df i st =
     (case st of (extrema_dates, extrema_prices, extrema_types) \<Rightarrow>
        try_bind (local_min_test (map low df) 5 i) (\<lambda>b.
          if b then
            try_bind (getitem (map date df) i) (\<lambda>d.
              try_bind (getitem (map low df) i) (\<lambda>p.
                Inr (extrema_dates @ [d], extrema_prices @ [p], extrema_types @ [''min''])))
          else Inr (extrema_dates, extrema_prices, extrema_types)))"

definition extrema_max_step :: "dataframe \<Rightarrow> int \<Rightarrow> extrema \<Rightarrow> py_error + extrema" where
  "extrema_max_step df i st =
     (case st of (extrema_dates, extrema_prices, extrema_types) \<Rightarrow>
        try_bind (local_max_test (map high df) 5 i) (\<lambda>b.
          if b then
            try_bind (getitem (map date df) i) (\<lambda>d.
              try_bind (getitem (map high df) i) (\<lambda>p.
                Inr (extrema_dates @ [d], extrema_prices @ [p], extrema_types @ [''max''])))
          else Inr (extrema_dates, extrema_prices, extrema_types)))"

fun extrema_loop :: "dataframe \<Rightarrow> int list \<Rightarrow> extrema \<Rightarrow> py_error + extrema" where
  "extrema_loop df [] st = Inr st"
| "extrema_loop df (i # is) st =
     (case extrema_min_step df i st of
        Inl e \<Rightarrow> Inl e
      | Inr st1 \<Rightarrow>
          (case extrema_max_step df i st1 of
             Inl e \<Rightarrow> Inl e
           | Inr st2 \<Rightarrow> extrema_loop df is st2))"

text \<open>
  Indexing a Python list: a negative index counts from the end, an index out of bounds
  raises \<^verbatim>\<open>IndexError\<close>.
\<close>

definition py_index :: "'a list \<Rightarrow> int \<Rightarrow> py_error + 'a" where
  "py_index xs i = iloc xs i"

text \<open>
  The condition \<^verbatim>\<open>extrema_types[i] == 'max' and extrema_types[i+1] == 'min' and
  extrema_types[i+2] == 'max'\<close>, evaluated from the left.
\<close>

definition abc_test :: "string list \<Rightarrow> int \<Rightarrow> py_error + bool" where
  "abc_test extrema_types i =
     try_bind (py_index extrema_types i) (\<lambda>a.
       if a = ''max'' then
         try_bind (py_index extrema_types (i + 1)) (\<lambda>b.
           if b = ''min'' then
             try_bind (py_index extrema_types (i + 2)) (\<lambda>c. Inr (c = ''max''))
           else Inr False)
       else Inr False)"

text \<open>\<^verbatim>\<open>(extrema_dates[k], extrema_prices[k])\<close>.\<close>

definition extremum_at :: "extrema \<Rightarrow> int \<Rightarrow> py_error + point" where
  "extremum_at st k =
     (case st of (extrema_dates, extrema_prices, extrema_types) \<Rightarrow>
        try_bind (py_index extrema_dates k) (\<lambda>d.
          try_bind (py_index extrema_prices k) (\<lambda>p. Inr (d, p))))"

fun abc_loop :: "extrema \<Rightarrow> int list \<Rightarrow> point list list \<Rightarrow> py_error + point list list" where
  "abc_loop st [] abc_patterns = Inr abc_patterns"
| "abc_loop st (i # is) abc_patterns =
     (case abc_test (snd (snd st)) i of
        Inl e \<Rightarrow> Inl e
      | Inr b \<Rightarrow>
          if b then
            (case extremum_at st i of
               Inl e \<Rightarrow> Inl e
             | Inr pa \<Rightarrow>
                 (case extremum_at st (i + 1) of
                    Inl e \<Rightarrow> Inl e
                  | Inr pb \<Rightarrow>
                      (case extremum_at st (i + 2) of
                         Inl e \<Rightarrow> Inl e
                       | Inr pc \<Rightarrow> abc_loop st is (abc_patterns @ [[pa, pb, pc]]))))
          else abc_loop st is abc_patterns)"

text \<open>The merged swing-point sequence the ABC scan runs over.\<close>

definition abc_extrema_try :: "dataframe \<Rightarrow> py_error + extrema" where
  "abc_extrema_try df = extrema_loop df (py_range 5 (int (length df) - 5)) ([], [], [])"

definition identify_abc_patterns_try :: "dataframe \<Rightarrow> py_error + point list list" where
  "identify_abc_patterns_try df =
     try_bind (abc_extrema_try df) (\<lambda>st.
       abc_loop st (py_range 0 (int (length (snd (snd st))) - 2)) [])"

definition identify_abc_patterns :: "dataframe \<Rightarrow> point list list" where
  "identify_abc_patterns df =
     (case identify_abc_patterns_try df of Inl e \<Rightarrow> [] | Inr r \<Rightarrow> r)"

section \<open>Signal detector\<close>

text \<open>\<^verbatim>\<open>pd.to_datetime\<close> of a value that is a timestamp already returns it.\<close>

definition to_datetime :: "timestamp \<Rightarrow> timestamp" where
  "to_datetime d = d"

text \<open>
  The inner loop over the levels: the first level with
  \<^verbatim>\<open>previous_close < price and current_close >= price\<close> appends the event and
  \<^verbatim>\<open>break\<close>s; with no such level nothing is appended.
\<close>

fun crossing_loop :: "real \<Rightarrow> real \<Rightarrow> point \<Rightarrow> point list \<Rightarrow> point list \<Rightarrow> point list" where
  "crossing_loop previous_close current_close ev [] signals = signals"
| "crossing_loop previous_close current_close ev ((s_date, s_price) # rest) signals =
     (if previous_close < s_price \<and> current_close \<ge> s_price then signals @ [ev]
      else crossing_loop previous_close current_close ev rest signals)"

fun signal_loop ::
  "dataframe \<Rightarrow> point list \<Rightarrow> point list \<Rightarrow> int list \<Rightarrow> point list \<times> point list \<Rightarrow>
   py_error + (point list \<times> point list)" where
  "signal_loop df support_prices resistance_prices [] st = Inr st"
| "signal_loop df support_prices resistance_prices (i # is) st =
     (case iloc (map close df) i of
        Inl e \<Rightarrow> Inl e
      | Inr current_close \<Rightarrow>
          (case iloc (map close df) (i - 1) of
             Inl e \<Rightarrow> Inl e
           | Inr previous_close \<Rightarrow>
               (case iloc (map date df) i of
                  Inl e \<Rightarrow> Inl e
                | Inr current_date \<Rightarrow>
                    signal_loop df support_prices resistance_prices is
                      (crossing_loop previous_close current_close
                         (current_date, current_close) support_prices (fst st),
                       crossing_loop previous_close current_close
                         (current_date, current_close) resistance_prices (snd st)))))"

definition detect_signal_points_try ::
  "dataframe \<Rightarrow> point list \<Rightarrow> point list \<Rightarrow> py_error + (point list \<times> point list)" where
  "detect_signal_points_try df supports resistances =
     (let support_prices = map (\<lambda>(date, price). (to_datetime date, price)) supports;
          resistance_prices = map (\<lambda>(date, price). (to_datetime date, price)) resistances
      in if support_prices = [] \<or> resistance_prices = [] then Inr ([], [])
         else signal_loop df support_prices resistance_prices
                (py_range 1 (int (length df))) ([], []))"

definition detect_signal_points ::
  "dataframe \<Rightarrow> point list \<Rightarrow> point list \<Rightarrow> point list \<times> point list" where
  "detect_signal_points df supports resistances =
     (case detect_signal_points_try df supports resistances of
        Inl e \<Rightarrow> ([], [])
      | Inr r \<Rightarrow> r)"

section \<open>Fibonacci calculator\<close>

text \<open>
  A Python float that results from a computation is a number or \<^verbatim>\<open>nan\<close>; arithmetic
  with \<^verbatim>\<open>nan\<close> gives \<^verbatim>\<open>nan\<close> and every comparison with it is false. The minimum
  and the maximum of a pandas column with no rows are \<^verbatim>\<open>nan\<close>; no exception is raised.
\<close>

datatype pyfloat = Num real | NaN

fun fsub :: "pyfloat \<Rightarrow> pyfloat \<Rightarrow> pyfloat" where
  "fsub (Num a) (Num b) = Num (a - b)"
| "fsub _ _ = NaN"

fun fmul :: "pyfloat \<Rightarrow> pyfloat \<Rightarrow> pyfloat" where
  "fmul (Num a) (Num b) = Num (a * b)"
| "fmul _ _ = NaN"

fun fge :: "pyfloat \<Rightarrow> pyfloat \<Rightarrow> bool" where
  "fge (Num a) (Num b) = (a \<ge> b)"
| "fge _ _ = False"

definition column_min :: "real list \<Rightarrow> pyfloat" where
  "column_min col = (case col of [] \<Rightarrow> NaN | x # xs \<Rightarrow> Num (fold min xs x))"

definition column_max :: "real list \<Rightarrow> pyfloat" where
  "column_max col = (case col of [] \<Rightarrow> NaN | x # xs \<Rightarrow> Num (fold max xs x))"

text \<open>
  The dictionary keeps the order of the literal, so it is an association list. With the
  \<^verbatim>\<open>low\<close> and \<^verbatim>\<open>high\<close> columns present nothing in the \<^verbatim>\<open>try\<close> block raises,
  and the handler that returns \<^verbatim>\<open>{}\<close> is not reached.
\<close>

definition calculate_fibonacci_retracement :: "dataframe \<Rightarrow> (string \<times> pyfloat) list" where
  "calculate_fibonacci_retracement df =
     (let lowest_price = column_min (map low df);
          highest_price = column_max (map high df);
          price_diff = fsub highest_price lowest_price
      in [(''0.0'', highest_price),
          (''0.236'', fsub highest_price (fmul (Num 0.236) price_diff)),
          (''0.382'', fsub highest_price (fmul (Num 0.382) price_diff)),
          (''0.5'', fsub highest_price (fmul (Num 0.5) price_diff)),
          (''0.618'', fsub highest_price (fmul (Num 0.618) price_diff)),
          (''0.786'', fsub highest_price (fmul (Num 0.786) price_diff)),
          (''1.0'', lowest_price)])"

section \<open>Chart composer\<close>

text \<open>
  A plotly figure as far as \<^verbatim>\<open>create_chart\<close> builds it: the traces with the subplot
  row each was added to, the shapes, the annotations and the layout. Building a trace,
  a shape or an annotation from values of the right types is taken to succeed.
\<close>

datatype marker = Marker string nat string "string option"

datatype trace =
    Candlestick "timestamp list" "real list" "real list" "real list" "real list" string
  | Bar "timestamp list" "real list" string string
  | Scatter "timestamp list" "real list" string marker "string list" string

datatype shape = Line timestamp pyfloat timestamp pyfloat string string

datatype xcoord = XDate timestamp | XNum real

datatype annotation = Annotation xcoord pyfloat string

record layout =
  title :: string
  xaxis_title :: string
  yaxis_title :: string
  height :: nat
  xaxis_rangeslider_visible :: bool

record figure =
  traces :: "(trace \<times> nat) list"
  shapes :: "shape list"
  annotations :: "annotation list"
  layout :: "layout option"

definition empty_figure :: figure where
  "empty_figure = \<lparr>traces = [], shapes = [], annotations = [], layout = None\<rparr>"

definition add_trace :: "figure \<Rightarrow> trace \<Rightarrow> nat \<Rightarrow> figure" where
  "add_trace fig t row = fig\<lparr>traces := traces fig @ [(t, row)]\<rparr>"

definition add_shape :: "figure \<Rightarrow> shape \<Rightarrow> figure" where
  "add_shape fig s = fig\<lparr>shapes := shapes fig @ [s]\<rparr>"

definition add_annotation :: "figure \<Rightarrow> annotation \<Rightarrow> figure" where
  "add_annotation fig a = fig\<lparr>annotations := annotations fig @ [a]\<rparr>"

definition update_layout :: "figure \<Rightarrow> layout \<Rightarrow> figure" where
  "update_layout fig l = fig\<lparr>layout := Some l\<rparr>"

text \<open>
  The values of the information dictionary, and Python's conversions to text. The text
  of an exception, the text of a float, the digits that \<^verbatim>\<open>:,.0f\<close> prints for a float
  and the interpreter's limit on the digits of an integer converted to text
  (\<^verbatim>\<open>sys.get_int_max_str_digits()\<close>, 4300 unless changed, 0 for no limit) belong to
  Python and are parameters of the model.
\<close>

datatype pyval = PNone | PStr string | PInt int | PFloat real

record py_text =
  str_exc :: "py_error \<Rightarrow> string"
  str_float :: "real \<Rightarrow> string"
  format_thousands :: "real \<Rightarrow> string"
  int_max_str_digits :: nat

text \<open>\<^verbatim>\<open>str\<close> of an integer: its decimal digits, with a sign when negative.\<close>

fun str_nat :: "nat \<Rightarrow> string" where
  "str_nat n =
     (if n < 10 then [char_of (48 + n)] else str_nat (n div 10) @ [char_of (48 + n mod 10)])"

declare str_nat.simps [simp del]

definition str_int :: "int \<Rightarrow> string" where
  "str_int i = (if i < 0 then CHR ''-'' # str_nat (nat (- i)) else str_nat (nat i))"

text \<open>
  \<^verbatim>\<open>f"{v}"\<close>. For an integer with more digits than the limit the conversion raises
  \<^verbatim>\<open>ValueError\<close>; the sign does not count as a digit.
\<close>

definition py_str :: "py_text \<Rightarrow> pyval \<Rightarrow> py_error + string" where
  "py_str txt v =
     (case v of
        PNone \<Rightarrow> Inr ''None''
      | PStr s \<Rightarrow> Inr s
      | PInt i \<Rightarrow>
          if int_max_str_digits txt \<noteq> 0
             \<and> int_max_str_digits txt < length (str_nat (nat \<bar>i\<bar>))
          then Inl ValueError else Inr (str_int i)
      | PFloat r \<Rightarrow> Inr (str_float txt r))"

definition truthy :: "pyval \<Rightarrow> bool" where
  "truthy v =
     (case v of PNone \<Rightarrow> False | PStr s \<Rightarrow> s \<noteq> [] | PInt i \<Rightarrow> i \<noteq> 0
      | PFloat r \<Rightarrow> r \<noteq> 0)"

text \<open>\<^verbatim>\<open>isinstance(v, (int, float))\<close>.\<close>

definition is_number :: "pyval \<Rightarrow> bool" where
  "is_number v = (case v of PInt i \<Rightarrow> True | PFloat r \<Rightarrow> True | _ \<Rightarrow> False)"

text \<open>
  \<^verbatim>\<open>f"{v:,.0f}"\<close>. The format converts an integer to a float first, which raises
  \<^verbatim>\<open>OverflowError\<close> when the integer rounds to a magnitude beyond the largest double,
  that is from \<open>2^1024 - 2^970\<close> on. A string does not know the format code
  (\<^verbatim>\<open>ValueError\<close>) and \<^verbatim>\<open>None\<close> takes no format string (\<^verbatim>\<open>TypeError\<close>).
\<close>

definition format_number :: "py_text \<Rightarrow> pyval \<Rightarrow> py_error + string" where
  "format_number txt v =
     (case v of
        PInt i \<Rightarrow>
          if 2 ^ 1024 - 2 ^ 970 \<le> \<bar>i\<bar> then Inl OverflowError
          else Inr (format_thousands txt (of_int i))
      | PFloat r \<Rightarrow> Inr (format_thousands txt r)
      | PStr s \<Rightarrow> Inl ValueError
      | PNone \<Rightarrow> Inl TypeError)"

definition dict_get :: "(string \<rightharpoonup> pyval) \<Rightarrow> string \<Rightarrow> pyval \<Rightarrow> pyval" where
  "dict_get d k fallback = (case d k of None \<Rightarrow> fallback | Some v \<Rightarrow> v)"

text \<open>Lines 225--251: the two subplots, the candlestick trace and the volume bars.\<close>

definition base_chart :: "dataframe \<Rightarrow> figure" where
  "base_chart df =
     add_trace
       (add_trace empty_figure
          (Candlestick (map date df) (map open_price df) (map high df) (map low df)
             (map close df) ''Price'') 1)
       (Bar (map date df) (map volume df) ''Volume'' ''rgba(0, 0, 255, 0.5)'') 2"

text \<open>
  The overlays mutate the figure in place. A step that raises leaves the figure as it was
  at that moment: the result is then \<open>Inl (e, fig)\<close> with the exception and that figure.
\<close>

type_synonym attempt = "(py_error \<times> figure) + figure"

text \<open>Lines 259--275: one dashed line per level, up to \<^verbatim>\<open>df['date'].iloc[-1]\<close>.\<close>

fun level_lines :: "dataframe \<Rightarrow> string \<Rightarrow> point list \<Rightarrow> figure \<Rightarrow> attempt" where
  "level_lines df color [] fig = Inr fig"
| "level_lines df color ((d, price) # rest) fig =
     (case iloc (map date df) (- 1) of
        Inl e \<Rightarrow> Inl (e, fig)
      | Inr x1 \<Rightarrow>
          level_lines df color rest
            (add_shape fig (Line d (Num price) x1 (Num price) color ''dash'')))"

text \<open>Lines 279--293: a dotted line and a label per Fibonacci level.\<close>

fun fibonacci_lines :: "dataframe \<Rightarrow> (string \<times> pyfloat) list \<Rightarrow> figure \<Rightarrow> attempt" where
  "fibonacci_lines df [] fig = Inr fig"
| "fibonacci_lines df ((level, price) # rest) fig =
     (case iloc (map date df) 0 of
        Inl e \<Rightarrow> Inl (e, fig)
      | Inr x0 \<Rightarrow>
          (case iloc (map date df) (- 1) of
             Inl e \<Rightarrow> Inl (e, fig)
           | Inr x1 \<Rightarrow>
               (case iloc (map date df) 0 of
                  Inl e \<Rightarrow> Inl (e, add_shape fig (Line x0 price x1 price ''purple'' ''dot''))
                | Inr xa \<Rightarrow>
                    fibonacci_lines df rest
                      (add_annotation
                         (add_shape fig (Line x0 price x1 price ''purple'' ''dot''))
                         (Annotation (XDate xa) price (''Fib '' @ level))))))"

text \<open>Lines 297--310: a marker per swing point, numbered from 1.\<close>

fun wave_markers :: "nat \<Rightarrow> (point \<times> string) list \<Rightarrow> figure \<Rightarrow> figure" where
  "wave_markers i [] fig = fig"
| "wave_markers i (((d, price), wave_type) # rest) fig =
     wave_markers (i + 1) rest
       (add_trace fig
          (Scatter [d] [price] ''markers''
             (Marker ''circle'' 8 (if wave_type = ''min'' then ''blue'' else ''orange'') None)
             [] (''Wave '' @ str_nat (i + 1))) 1)"

text \<open>Lines 314--334: the three points of a pattern, read by index, joined and labelled.\<close>

fun abc_traces :: "nat \<Rightarrow> point list list \<Rightarrow> figure \<Rightarrow> attempt" where
  "abc_traces i [] fig = Inr fig"
| "abc_traces i (pattern # rest) fig =
     (case py_index pattern 0 of
        Inl e \<Rightarrow> Inl (e, fig)
      | Inr (a_date, a_price) \<Rightarrow>
          (case py_index pattern 1 of
             Inl e \<Rightarrow> Inl (e, fig)
           | Inr (b_date, b_price) \<Rightarrow>
               (case py_index pattern 2 of
                  Inl e \<Rightarrow> Inl (e, fig)
                | Inr (c_date, c_price) \<Rightarrow>
                    abc_traces (i + 1) rest
                      (add_trace fig
                         (Scatter [a_date, b_date, c_date] [a_price, b_price, c_price]
                            ''lines+markers+text'' (Marker ''circle'' 10 ''cyan'' None)
                            [''A'', ''B'', ''C''] (''ABC Pattern '' @ str_nat (i + 1))) 1))))"

text \<open>Lines 340--377: one trace for the buy signals and one for the sell signals, if any.\<close>

definition buy_markers :: "point list \<Rightarrow> figure \<Rightarrow> figure" where
  "buy_markers buy_signals fig =
     (if buy_signals \<noteq> [] then
        add_trace fig
          (Scatter (map fst buy_signals) (map snd buy_signals) ''markers''
             (Marker ''triangle-up'' 15 ''green'' (Some ''darkgreen'')) [] ''Buy Signal'') 1
      else fig)"

definition sell_markers :: "point list \<Rightarrow> figure \<Rightarrow> figure" where
  "sell_markers sell_signals fig =
     (if sell_signals \<noteq> [] then
        add_trace fig
          (Scatter (map fst sell_signals) (map snd sell_signals) ''markers''
             (Marker ''triangle-down'' 15 ''red'' (Some ''darkred'')) [] ''Sell Signal'') 1
      else fig)"

text \<open>The figure an attempt leaves behind, whether it raised or not.\<close>

definition figure_after :: "attempt \<Rightarrow> figure" where
  "figure_after a = (case a of Inl (e, fig) \<Rightarrow> fig | Inr fig \<Rightarrow> fig)"

text \<open>The inner \<^verbatim>\<open>try\<close> block, lines 256--377.\<close>

definition add_indicators :: "dataframe \<Rightarrow> figure \<Rightarrow> attempt" where
  "add_indicators df fig =
     (case calculate_support_resistance df 10 of (supports, resistances) \<Rightarrow>
        (case level_lines df ''green'' supports fig of
           Inl x \<Rightarrow> Inl x
         | Inr fig1 \<Rightarrow>
             (case level_lines df ''red'' resistances fig1 of
                Inl x \<Rightarrow> Inl x
              | Inr fig2 \<Rightarrow>
                  (case fibonacci_lines df (calculate_fibonacci_retracement df) fig2 of
                     Inl x \<Rightarrow> Inl x
                   | Inr fig3 \<Rightarrow>
                       (case identify_elliot_waves df of (waves, wave_types) \<Rightarrow>
                          (case abc_traces 0 (identify_abc_patterns df)
                                  (wave_markers 0 (zip waves wave_types) fig3) of
                             Inl x \<Rightarrow> Inl x
                           | Inr fig5 \<Rightarrow>
                               (case detect_signal_points df supports resistances of
                                  (buy_signals, sell_signals) \<Rightarrow>
                                    Inr (sell_markers sell_signals
                                           (buy_markers buy_signals fig5)))))))))"

text \<open>
  Lines 382--391: the title. A value that is truthy and a number is replaced by its
  formatted text, the market capitalisation first; then the f-string converts the name,
  the market capitalisation and the supply, in this order. Each conversion may raise.
\<close>

definition chart_title :: "py_text \<Rightarrow> string \<Rightarrow> (string \<rightharpoonup> pyval) \<Rightarrow> py_error + string" where
  "chart_title txt ticker crypto_info =
     (let crypto_name = dict_get crypto_info ''name'' (PStr ticker);
          market_cap = dict_get crypto_info ''market_cap'' (PStr ''N/A'')
      in try_bind
           (if truthy market_cap \<and> is_number market_cap
            then try_bind (format_number txt market_cap) (\<lambda>s. Inr (PStr (''$'' @ s)))
            else Inr market_cap)
           (\<lambda>market_cap.
              let circulating_supply = dict_get crypto_info ''circulating_supply'' (PStr ''N/A'')
              in try_bind
                   (if truthy circulating_supply \<and> is_number circulating_supply
                    then try_bind (format_number txt circulating_supply)
                           (\<lambda>s. Inr (PStr (s @ '' coins'')))
                    else Inr circulating_supply)
                   (\<lambda>circulating_supply.
                      try_bind (py_str txt crypto_name) (\<lambda>n.
                        try_bind (py_str txt market_cap) (\<lambda>m.
                          try_bind (py_str txt circulating_supply) (\<lambda>c.
                            Inr (n @ '' ('' @ ticker @ '') | Market Cap: '' @ m
                                 @ '' | Supply: '' @ c)))))))"

text \<open>
  The frame handed to \<^verbatim>\<open>create_chart\<close> is a well-formed one or one that lacks one of
  the columns \<^verbatim>\<open>date, open, high, low, close, volume\<close>. Lines 230--251 read all six
  columns, so on the latter the read of the missing one raises \<^verbatim>\<open>KeyError\<close> before
  the overlays are reached.
\<close>

datatype chart_frame = Frame dataframe | Missing_column

text \<open>
  The outer \<^verbatim>\<open>try\<close> block. An exception of the inner block is logged and the figure
  is kept as the overlays left it. \<^verbatim>\<open>crypto_info\<close> may be \<^verbatim>\<open>None\<close>, on which
  \<^verbatim>\<open>.get\<close> raises \<^verbatim>\<open>AttributeError\<close>; an exception of the title ends the block
  as well.
\<close>

definition create_chart_try ::
  "py_text \<Rightarrow> chart_frame \<Rightarrow> string \<Rightarrow> (string \<rightharpoonup> pyval) option \<Rightarrow> bool \<Rightarrow> py_error + figure" where
  "create_chart_try txt frame ticker crypto_info technical_indicators =
     (case frame of
        Missing_column \<Rightarrow> Inl KeyError
      | Frame df \<Rightarrow>
          (let fig = base_chart df;
               fig = (if technical_indicators then figure_after (add_indicators df fig)
                      else fig)
           in case crypto_info of
                None \<Rightarrow> Inl AttributeError
              | Some info \<Rightarrow>
                  try_bind (chart_title txt ticker info) (\<lambda>t.
                    Inr (update_layout fig
                           \<lparr>title = t, xaxis_title = ''Date'',
                            yaxis_title = ''Price (USD)'', height = 800,
                            xaxis_rangeslider_visible = False\<rparr>))))"

text \<open>The handler of the outer block, lines 402--412: a figure with one annotation.\<close>

definition error_chart :: "py_text \<Rightarrow> py_error \<Rightarrow> figure" where
  "error_chart txt e =
     add_annotation empty_figure
       (Annotation (XNum 0.5) (Num 0.5) (''Error creating chart: '' @ str_exc txt e))"

definition create_chart ::
  "py_text \<Rightarrow> chart_frame \<Rightarrow> string \<Rightarrow> (string \<rightharpoonup> pyval) option \<Rightarrow> bool \<Rightarrow> figure" where
  "create_chart txt frame ticker crypto_info technical_indicators =
     (case create_chart_try txt frame ticker crypto_info technical_indicators of
        Inl e \<Rightarrow> error_chart txt e
      | Inr fig \<Rightarrow> fig)"

section \<open>Specification predicates\<close>

text \<open>
  The predicates below follow the words of the specification; the theorems compare them
  with what the functions above compute. A position is an integer; the row at position
  \<open>i\<close> is \<open>df ! nat i\<close>.
\<close>

text \<open>
  \<open>col[i]\<close> is at most (at least) every value in the \<open>w\<close> positions before \<open>i\<close> and the
  \<open>w\<close> positions after it.
\<close>

definition spec_local_min :: "real list \<Rightarrow> int \<Rightarrow> int \<Rightarrow> bool" where
  "spec_local_min col w i \<longleftrightarrow>
     (\<forall>k\<in>{i - w..<i}. col ! nat i \<le> col ! nat k) \<and> (\<forall>k\<in>{i<..i + w}. col ! nat i \<le> col ! nat k)"

definition spec_local_max :: "real list \<Rightarrow> int \<Rightarrow> int \<Rightarrow> bool" where
  "spec_local_max col w i \<longleftrightarrow>
     (\<forall>k\<in>{i - w..<i}. col ! nat i \<ge> col ! nat k) \<and> (\<forall>k\<in>{i<..i + w}. col ! nat i \<ge> col ! nat k)"

text \<open>Some level price \<open>s\<close> has \<open>close[i-1] < s \<le> close[i]\<close>; the event of position \<open>i\<close>.\<close>

definition crosses :: "point list \<Rightarrow> dataframe \<Rightarrow> int \<Rightarrow> bool" where
  "crosses levels df i \<longleftrightarrow>
     (\<exists>(d, s)\<in>set levels. close (df ! nat (i - 1)) < s \<and> s \<le> close (df ! nat i))"

definition event_at :: "dataframe \<Rightarrow> int \<Rightarrow> point" where
  "event_at df i = (date (df ! nat i), close (df ! nat i))"

text \<open>
  The swing points an index contributes, the minimum first, and the merged sequence of a
  list of indices.
\<close>

definition swing_entries :: "dataframe \<Rightarrow> int \<Rightarrow> (timestamp \<times> real \<times> string) list" where
  "swing_entries df i =
     (if spec_local_min (map low df) 5 i
      then [(date (df ! nat i), low (df ! nat i), ''min'')] else [])
     @ (if spec_local_max (map high df) 5 i
        then [(date (df ! nat i), high (df ! nat i), ''max'')] else [])"

definition merged_swings :: "dataframe \<Rightarrow> int list \<Rightarrow> (timestamp \<times> real \<times> string) list" where
  "merged_swings df is = concat (map (swing_entries df) is)"

text \<open>The kinds at three consecutive positions are \<open>max, min, max\<close>; the triple there.\<close>

definition abc_at :: "string list \<Rightarrow> nat \<Rightarrow> bool" where
  "abc_at ts k \<longleftrightarrow> ts ! k = ''max'' \<and> ts ! (k + 1) = ''min'' \<and> ts ! (k + 2) = ''max''"

definition triple_at :: "timestamp list \<Rightarrow> real list \<Rightarrow> nat \<Rightarrow> point list" where
  "triple_at ds ps k = [(ds ! k, ps ! k), (ds ! (k + 1), ps ! (k + 1)), (ds ! (k + 2), ps ! (k + 2))]"

text \<open>The second figure has the traces of the first, in order, and possibly more after them.\<close>

definition keeps_traces :: "figure \<Rightarrow> figure \<Rightarrow> bool" where
  "keeps_traces fig fig' \<longleftrightarrow> (\<exists>added. traces fig' = traces fig @ added)"

section \<open>Example series\<close>

definition scan_frame :: dataframe where
  "scan_frame =
     [\<lparr>date = 0, open_price = 6, high = 10, low = 5, close = 8, volume = 100\<rparr>,
      \<lparr>date = 1, open_price = 8, high = 12, low = 3, close = 9, volume = 100\<rparr>,
      \<lparr>date = 2, open_price = 9, high = 11, low = 4, close = 10, volume = 100\<rparr>]"

definition signal_frame :: dataframe where
  "signal_frame =
     [\<lparr>date = 0, open_price = 8, high = 8, low = 8, close = 8, volume = 100\<rparr>,
      \<lparr>date = 1, open_price = 9, high = 9, low = 9, close = 9, volume = 100\<rparr>,
      \<lparr>date = 2, open_price = 11, high = 11, low = 11, close = 11, volume = 100\<rparr>,
      \<lparr>date = 3, open_price = 10, high = 10, low = 10, close = 10, volume = 100\<rparr>]"

definition fib_frame :: dataframe where
  "fib_frame =
     [\<lparr>date = 0, open_price = 60, high = 100, low = 50, close = 70, volume = 100\<rparr>,
      \<lparr>date = 1, open_price = 70, high = 90, low = 60, close = 80, volume = 100\<rparr>]"

definition flat_frame :: dataframe where
  "flat_frame = replicate 12 \<lparr>date = 0, open_price = 1, high = 2, low = 1, close = 1, volume = 100\<rparr>"

text \<open>Conversions to text for the examples.\<close>

definition plain_text :: py_text where
  "plain_text = \<lparr>str_exc = (\<lambda>e. ''exception''), str_float = (\<lambda>r. ''0.0''),
                   format_thousands = (\<lambda>r. ''0''), int_max_str_digits = 4300\<rparr>"

text \<open>An information dictionary whose market capitalisation does not fit a float.\<close>

definition huge_cap_info :: "string \<rightharpoonup> pyval" where
  "huge_cap_info = [''market_cap'' \<mapsto> PInt (2 ^ 1024)]"

section \<open>Extremum scanner: classification\<close>

lemma set_py_range: "set (py_range a b) = {a..<b}"
  by (auto simp: py_range_def)

lemma py_all_no_error:
  "(\<And>j. j \<in> set js \<Longrightarrow> f j = Inr (P j)) \<Longrightarrow> py_all f js = Inr (\<forall>j\<in>set js. P j)"
  by (induction js) auto

lemma before_window: "(\<forall>j\<in>{1..<w + 1}. P (i - j)) \<longleftrightarrow> (\<forall>k\<in>{i - w..<i}. P (k::int))"
proof
  assume h: "\<forall>j\<in>{1..<w + 1}. P (i - j)"
  show "\<forall>k\<in>{i - w..<i}. P k"
  proof
    fix k assume "k \<in> {i - w..<i}"
    then have "i - k \<in> {1..<w + 1}" by auto
    with h have "P (i - (i - k))" by blast
    then show "P k" by simp
  qed
next
  assume "\<forall>k\<in>{i - w..<i}. P k"
  then show "\<forall>j\<in>{1..<w + 1}. P (i - j)" by auto
qed

lemma after_window: "(\<forall>j\<in>{1..<w + 1}. P (i + j)) \<longleftrightarrow> (\<forall>k\<in>{i<..i + w}. P (k::int))"
proof
  assume h: "\<forall>j\<in>{1..<w + 1}. P (i + j)"
  show "\<forall>k\<in>{i<..i + w}. P k"
  proof
    fix k assume "k \<in> {i<..i + w}"
    then have "k - i \<in> {1..<w + 1}" by auto
    with h have "P (i + (k - i))" by blast
    then show "P k" by simp
  qed
next
  assume "\<forall>k\<in>{i<..i + w}. P k"
  then show "\<forall>j\<in>{1..<w + 1}. P (i + j)" by auto
qed

lemma local_min_test_in_range:
  assumes "w \<le> i" and "i < int (length col) - w"
  shows "local_min_test col w i = Inr (spec_local_min col w i)"
proof -
  have b: "py_all (\<lambda>j. le_at col i (i - j)) (py_range 1 (w + 1))
      = Inr (\<forall>j\<in>set (py_range 1 (w + 1)). col ! nat i \<le> col ! nat (i - j))"
    using assms by (intro py_all_no_error) (auto simp: le_at_def try_bind_def getitem_def set_py_range)
  have a: "py_all (\<lambda>j. le_at col i (i + j)) (py_range 1 (w + 1))
      = Inr (\<forall>j\<in>set (py_range 1 (w + 1)). col ! nat i \<le> col ! nat (i + j))"
    using assms by (intro py_all_no_error) (auto simp: le_at_def try_bind_def getitem_def set_py_range)
  show ?thesis
    unfolding local_min_test_def a b spec_local_min_def set_py_range
      before_window [of w "\<lambda>k. col ! nat i \<le> col ! nat k" i]
      after_window [of w "\<lambda>k. col ! nat i \<le> col ! nat k" i]
    by (simp add: try_bind_def)
qed

lemma local_max_test_in_range:
  assumes "w \<le> i" and "i < int (length col) - w"
  shows "local_max_test col w i = Inr (spec_local_max col w i)"
proof -
  have b: "py_all (\<lambda>j. ge_at col i (i - j)) (py_range 1 (w + 1))
      = Inr (\<forall>j\<in>set (py_range 1 (w + 1)). col ! nat i \<ge> col ! nat (i - j))"
    using assms by (intro py_all_no_error) (auto simp: ge_at_def try_bind_def getitem_def set_py_range)
  have a: "py_all (\<lambda>j. ge_at col i (i + j)) (py_range 1 (w + 1))
      = Inr (\<forall>j\<in>set (py_range 1 (w + 1)). col ! nat i \<ge> col ! nat (i + j))"
    using assms by (intro py_all_no_error) (auto simp: ge_at_def try_bind_def getitem_def set_py_range)
  show ?thesis
    unfolding local_max_test_def a b spec_local_max_def set_py_range
      before_window [of w "\<lambda>k. col ! nat i \<ge> col ! nat k" i]
      after_window [of w "\<lambda>k. col ! nat i \<ge> col ! nat k" i]
    by (simp add: try_bind_def)
qed

lemma supports_loop_in_range:
  assumes "0 \<le> w" and "\<And>i. i \<in> set is \<Longrightarrow> w \<le> i \<and> i < int (length df) - w"
  shows "supports_loop df w is acc =
     Inr (acc @ map (\<lambda>i. (date (df ! nat i), low (df ! nat i)))
                  (filter (spec_local_min (map low df) w) is))"
  using assms(2)
proof (induction "is" arbitrary: acc)
  case Nil
  then show ?case by simp
next
  case (Cons i "is")
  have r: "w \<le> i" "i < int (length df) - w" using Cons.prems by auto
  have t: "local_min_test (map low df) w i = Inr (spec_local_min (map low df) w i)"
    using r by (intro local_min_test_in_range) auto
  have g: "0 \<le> i" "i < int (length df)" using r assms(1) by auto
  have n: "nat i < length df" using g by auto
  show ?case
    using Cons.IH [of "acc @ [(date (df ! nat i), low (df ! nat i))]"] Cons.IH [of acc] Cons.prems g n
    by (simp add: t getitem_def)
qed

lemma resistances_loop_in_range:
  assumes "0 \<le> w" and "\<And>i. i \<in> set is \<Longrightarrow> w \<le> i \<and> i < int (length df) - w"
  shows "resistances_loop df w is acc =
     Inr (acc @ map (\<lambda>i. (date (df ! nat i), high (df ! nat i)))
                  (filter (spec_local_max (map high df) w) is))"
  using assms(2)
proof (induction "is" arbitrary: acc)
  case Nil
  then show ?case by simp
next
  case (Cons i "is")
  have r: "w \<le> i" "i < int (length df) - w" using Cons.prems by auto
  have t: "local_max_test (map high df) w i = Inr (spec_local_max (map high df) w i)"
    using r by (intro local_max_test_in_range) auto
  have g: "0 \<le> i" "i < int (length df)" using r assms(1) by auto
  have n: "nat i < length df" using g by auto
  show ?case
    using Cons.IH [of "acc @ [(date (df ! nat i), high (df ! nat i))]"] Cons.IH [of acc] Cons.prems g n
    by (simp add: t getitem_def)
qed

text \<open>
  Claim C2. For a window size \<open>w \<ge> 0\<close> nothing in the scanner raises, and its result lists
  exactly the positions \<open>i\<close> of \<open>[w, n - w)\<close>, in ascending order, each once:
  \<open>(date[i], low[i])\<close> is a support if and only if \<open>low[i]\<close> is at most every low in the
  \<open>w\<close> positions before and the \<open>w\<close> positions after \<open>i\<close> (ties qualify), and
  \<open>(date[i], high[i])\<close> is a resistance if and only if \<open>high[i]\<close> is at least every high
  there. With \<open>n \<le> 2 w\<close> both lists are empty and no exception was raised on the way.
\<close>

theorem scanner_classifies:
  assumes "0 \<le> w"
  shows "calculate_support_resistance_try df w =
      Inr (map (\<lambda>i. (date (df ! nat i), low (df ! nat i)))
             (filter (spec_local_min (map low df) w) (py_range w (int (length df) - w))),
           map (\<lambda>i. (date (df ! nat i), high (df ! nat i)))
             (filter (spec_local_max (map high df) w) (py_range w (int (length df) - w))))
    \<and> calculate_support_resistance df w =
      (map (\<lambda>i. (date (df ! nat i), low (df ! nat i)))
             (filter (spec_local_min (map low df) w) (py_range w (int (length df) - w))),
           map (\<lambda>i. (date (df ! nat i), high (df ! nat i)))
             (filter (spec_local_max (map high df) w) (py_range w (int (length df) - w))))
    \<and> (int (length df) \<le> 2 * w \<longrightarrow>
         calculate_support_resistance_try df w = Inr ([], []) \<and>
         calculate_support_resistance df w = ([], []))"
proof -
  have s: "supports_loop df w (py_range w (int (length df) - w)) [] =
     Inr (map (\<lambda>i. (date (df ! nat i), low (df ! nat i)))
            (filter (spec_local_min (map low df) w) (py_range w (int (length df) - w))))"
    using supports_loop_in_range [OF assms, of "py_range w (int (length df) - w)" df "[]"]
    by (simp add: set_py_range)
  have r: "resistances_loop df w (py_range w (int (length df) - w)) [] =
     Inr (map (\<lambda>i. (date (df ! nat i), high (df ! nat i)))
            (filter (spec_local_max (map high df) w) (py_range w (int (length df) - w))))"
    using resistances_loop_in_range [OF assms, of "py_range w (int (length df) - w)" df "[]"]
    by (simp add: set_py_range)
  have e: "int (length df) \<le> 2 * w \<Longrightarrow> py_range w (int (length df) - w) = []"
    by (simp add: py_range_def)
  show ?thesis
    unfolding calculate_support_resistance_def calculate_support_resistance_try_def s r
    using e by (auto simp: try_bind_def)
qed

text \<open>
  A negative window is not a window size: the loop then starts at the negative label
  \<open>w\<close>, both tests hold vacuously, reading \<^verbatim>\<open>df['date'][w]\<close> raises \<^verbatim>\<open>KeyError\<close>
  and the handler returns the two empty lists.
\<close>

lemma negative_window_raises:
  assumes "w < 0"
  shows "calculate_support_resistance_try df w = Inl KeyError"
    and "calculate_support_resistance df w = ([], [])"
proof -
  have r: "py_range w (int (length df) - w) = w # py_range (w + 1) (int (length df) - w)"
    using assms by (simp add: py_range_def upto_rec1)
  have e: "py_range 1 (w + 1) = []"
    using assms by (simp add: py_range_def)
  have t: "local_min_test (map low df) w w = Inr True"
    by (simp add: local_min_test_def e try_bind_def)
  have g: "getitem (map date df) w = Inl KeyError"
    using assms by (simp add: getitem_def)
  have s: "supports_loop df w (py_range w (int (length df) - w)) [] = Inl KeyError"
    unfolding r by (simp add: t g)
  show "calculate_support_resistance_try df w = Inl KeyError"
    by (simp add: calculate_support_resistance_try_def s try_bind_def)
  then show "calculate_support_resistance df w = ([], [])"
    by (simp add: calculate_support_resistance_def)
qed

lemma py_range_1_2: "py_range 1 2 = [1]"
  by (simp add: py_range_def upto.simps)

text \<open>The theorem at a concrete series.\<close>

theorem scanner_classifies_witness:
  "(0::int) \<le> 1
   \<and> calculate_support_resistance scan_frame 1 = ([(1, 3)], [(1, 12)])
   \<and> int (length scan_frame) \<le> 2 * 2
   \<and> calculate_support_resistance_try scan_frame 2 = Inr ([], [])"
proof -
  have h: "(0::int) \<le> 1" "(0::int) \<le> 2" by simp_all
  have l: "int (length scan_frame) \<le> 2 * 2" by (simp add: scan_frame_def)
  have lo: "spec_local_min (map low scan_frame) 1 1"
    by (auto simp: spec_local_min_def scan_frame_def)
  have hi: "spec_local_max (map high scan_frame) 1 1"
    by (auto simp: spec_local_max_def scan_frame_def)
  have n: "int (length scan_frame) - 1 = 2" by (simp add: scan_frame_def)
  have v: "calculate_support_resistance scan_frame 1 = ([(1, 3)], [(1, 12)])"
    using scanner_classifies [OF h(1), of scan_frame]
    by (simp add: n py_range_1_2 lo hi) (simp add: scan_frame_def)
  show ?thesis
    using h(1) v l scanner_classifies [OF h(2), of scan_frame] by blast
qed

section \<open>Signal detector: crossings\<close>

lemma crossing_loop_exists:
  "crossing_loop pc cc ev levels signals =
     signals @ (if \<exists>(d, s)\<in>set levels. pc < s \<and> s \<le> cc then [ev] else [])"
  by (induction pc cc ev levels signals rule: crossing_loop.induct) simp_all

lemma signal_loop_positions:
  assumes "\<And>i. i \<in> set is \<Longrightarrow> 1 \<le> i \<and> i < int (length df)"
  shows "signal_loop df sp rp is (buys, sells) =
     Inr (buys @ map (event_at df) (filter (crosses sp df) is),
          sells @ map (event_at df) (filter (crosses rp df) is))"
  using assms
proof (induction "is" arbitrary: buys sells)
  case Nil
  then show ?case by simp
next
  case (Cons i "is")
  have r: "1 \<le> i" "i < int (length df)" using Cons.prems by auto
  have c: "iloc (map close df) i = Inr (close (df ! nat i))"
    using r by (simp add: iloc_def)
  have p: "iloc (map close df) (i - 1) = Inr (close (df ! nat (i - 1)))"
    using r by (simp add: iloc_def)
  have d: "iloc (map date df) i = Inr (date (df ! nat i))"
    using r by (simp add: iloc_def)
  have ih: "\<And>b s. signal_loop df sp rp is (b, s) =
     Inr (b @ map (event_at df) (filter (crosses sp df) is),
          s @ map (event_at df) (filter (crosses rp df) is))"
    using Cons.IH Cons.prems by simp
  have s: "crossing_loop (close (df ! nat (i - 1))) (close (df ! nat i))
              (date (df ! nat i), close (df ! nat i)) levels acc =
            acc @ (if crosses levels df i then [event_at df i] else [])" for levels acc
    unfolding crossing_loop_exists crosses_def event_at_def by simp
  show ?case
    by (simp add: c p d ih s)
qed

lemma detect_signal_points_try_eq:
  assumes "supports \<noteq> []" and "resistances \<noteq> []"
  shows "detect_signal_points_try df supports resistances =
     Inr (map (event_at df) (filter (crosses supports df) (py_range 1 (int (length df)))),
          map (event_at df) (filter (crosses resistances df) (py_range 1 (int (length df)))))"
proof -
  have m: "map (\<lambda>(date, price). (to_datetime date, price)) xs = xs" for xs :: "point list"
    by (induction xs) (auto simp: to_datetime_def)
  show ?thesis
    unfolding detect_signal_points_try_def Let_def m
    using assms signal_loop_positions [of "py_range 1 (int (length df))" df supports resistances "[]" "[]"]
    by (simp add: set_py_range)
qed

lemma py_range_1_4: "py_range 1 4 = [1, 2, 3]"
  by (simp add: py_range_def upto.simps)

lemma date_position_unique:
  assumes "distinct (map date df)"
    and "0 \<le> i" and "i < int (length df)" and "0 \<le> j" and "j < int (length df)"
    and "date (df ! nat i) = date (df ! nat j)"
  shows "i = j"
proof -
  have b: "nat i < length (map date df)" "nat j < length (map date df)"
    using assms(2-5) by auto
  have "map date df ! nat i = map date df ! nat j"
    using b assms(6) by simp
  then have "nat i = nat j"
    using nth_eq_iff_index_eq [OF assms(1) b] by blast
  then show ?thesis using assms(2,4) by simp
qed

lemma event_member_iff:
  assumes "distinct (map date df)" and "1 \<le> i" and "i < int (length df)"
  shows "(date (df ! nat i), close (df ! nat i))
           \<in> set (map (event_at df) (filter P (py_range 1 (int (length df))))) \<longleftrightarrow> P i"
proof
  assume "(date (df ! nat i), close (df ! nat i))
           \<in> set (map (event_at df) (filter P (py_range 1 (int (length df)))))"
  then obtain j where j: "1 \<le> j" "j < int (length df)" "P j"
      "event_at df j = (date (df ! nat i), close (df ! nat i))"
    by (auto simp: set_py_range)
  have "date (df ! nat i) = date (df ! nat j)"
    using j(4) by (simp add: event_at_def)
  then have "i = j"
    using date_position_unique [OF assms(1), of i j] assms(2,3) j(1,2) by simp
  then show "P i" using j(3) by simp
next
  assume "P i"
  then have "i \<in> set (filter P (py_range 1 (int (length df))))"
    using assms(2,3) by (simp add: set_py_range)
  then have "event_at df i \<in> set (map (event_at df) (filter P (py_range 1 (int (length df)))))"
    by (simp only: set_map) (rule imageI)
  then show "(date (df ! nat i), close (df ! nat i))
           \<in> set (map (event_at df) (filter P (py_range 1 (int (length df)))))"
    by (simp add: event_at_def)
qed

text \<open>
  Claim C1 as stated, for every pair of level lists, fails: with closes \<open>8, 9, 11, 10\<close>, one
  support level at 10 and no resistance level, position 2 crosses the support
  (\<open>9 < 10 \<le> 11\<close>) and yet no buy event is returned, because the detector returns early
  when either list is empty.
\<close>

theorem signals_at_crossings_counterexample:
  "close (signal_frame ! 1) < 10 \<and> 10 \<le> close (signal_frame ! 2)
   \<and> fst (detect_signal_points signal_frame [(0, 10)] []) = []"
  by (simp add: signal_frame_def detect_signal_points_def detect_signal_points_try_def)

text \<open>
  Claim C1, amended. When both level lists are non-empty, nothing raises, and the buy events
  are exactly the \<open>(date[i], close[i])\<close> of the positions \<open>1 \<le> i \<le> n - 1\<close>, in
  ascending order, at which some support level \<open>s\<close> has \<open>close[i-1] < s \<le> close[i]\<close>;
  the sell events are the same with the resistance levels. With the unique timestamps of a
  series, the event of position \<open>i\<close> is among the buy events if and only if some support
  level is crossed at \<open>i\<close>, and among the sell events if and only if some resistance
  level is.
\<close>

theorem signals_at_crossings:
  assumes "supports \<noteq> []" and "resistances \<noteq> []"
  shows "detect_signal_points_try df supports resistances =
       Inr (detect_signal_points df supports resistances)
    \<and> fst (detect_signal_points df supports resistances) =
       map (\<lambda>i. (date (df ! nat i), close (df ! nat i)))
         (filter (\<lambda>i. \<exists>(d, s)\<in>set supports. close (df ! nat (i - 1)) < s \<and> s \<le> close (df ! nat i))
            (py_range 1 (int (length df))))
    \<and> snd (detect_signal_points df supports resistances) =
       map (\<lambda>i. (date (df ! nat i), close (df ! nat i)))
         (filter (\<lambda>i. \<exists>(d, r)\<in>set resistances. close (df ! nat (i - 1)) < r \<and> r \<le> close (df ! nat i))
            (py_range 1 (int (length df))))
    \<and> (distinct (map date df) \<longrightarrow>
         (\<forall>i. 1 \<le> i \<and> i < int (length df) \<longrightarrow>
            ((date (df ! nat i), close (df ! nat i))
                \<in> set (fst (detect_signal_points df supports resistances))
             \<longleftrightarrow> (\<exists>(d, s)\<in>set supports.
                    close (df ! nat (i - 1)) < s \<and> s \<le> close (df ! nat i)))
          \<and> ((date (df ! nat i), close (df ! nat i))
                \<in> set (snd (detect_signal_points df supports resistances))
             \<longleftrightarrow> (\<exists>(d, r)\<in>set resistances.
                    close (df ! nat (i - 1)) < r \<and> r \<le> close (df ! nat i)))))"
proof -
  have e: "event_at df = (\<lambda>i. (date (df ! nat i), close (df ! nat i)))"
    by (rule ext) (simp add: event_at_def)
  have c: "crosses levels df =
      (\<lambda>i. \<exists>(d, s)\<in>set levels. close (df ! nat (i - 1)) < s \<and> s \<le> close (df ! nat i))" for levels
    by (rule ext) (simp add: crosses_def)
  note q = detect_signal_points_try_eq [OF assms, of df]
  have v: "detect_signal_points df supports resistances =
     (map (event_at df) (filter (crosses supports df) (py_range 1 (int (length df)))),
      map (event_at df) (filter (crosses resistances df) (py_range 1 (int (length df)))))"
    using q by (simp add: detect_signal_points_def)
  have m: "(date (df ! nat i), close (df ! nat i))
                \<in> set (fst (detect_signal_points df supports resistances))
             \<longleftrightarrow> crosses supports df i"
     "(date (df ! nat i), close (df ! nat i))
                \<in> set (snd (detect_signal_points df supports resistances))
             \<longleftrightarrow> crosses resistances df i"
    if "distinct (map date df)" "1 \<le> i" "i < int (length df)" for i
    unfolding v fst_conv snd_conv
    using event_member_iff [OF that, of "crosses supports df"]
      event_member_iff [OF that, of "crosses resistances df"]
    by blast+
  have "detect_signal_points_try df supports resistances =
       Inr (detect_signal_points df supports resistances)"
    using q v by simp
  moreover have "fst (detect_signal_points df supports resistances) =
       map (event_at df) (filter (crosses supports df) (py_range 1 (int (length df))))"
    using v by simp
  moreover have "snd (detect_signal_points df supports resistances) =
       map (event_at df) (filter (crosses resistances df) (py_range 1 (int (length df))))"
    using v by simp
  moreover have "distinct (map date df) \<longrightarrow>
         (\<forall>i. 1 \<le> i \<and> i < int (length df) \<longrightarrow>
            ((date (df ! nat i), close (df ! nat i))
                \<in> set (fst (detect_signal_points df supports resistances))
             \<longleftrightarrow> crosses supports df i)
          \<and> ((date (df ! nat i), close (df ! nat i))
                \<in> set (snd (detect_signal_points df supports resistances))
             \<longleftrightarrow> crosses resistances df i))"
    using m by blast
  ultimately show ?thesis
    unfolding e c by blast
qed

text \<open>The theorem at a concrete series.\<close>

theorem signals_at_crossings_witness:
  "[(0, 10)] \<noteq> ([] :: point list) \<and> [(0, 11)] \<noteq> ([] :: point list)
   \<and> distinct (map date signal_frame) \<and> (1::int) \<le> 2 \<and> 2 < int (length signal_frame)
   \<and> fst (detect_signal_points signal_frame [(0, 10)] [(0, 11)]) = [(2, 11)]
   \<and> (date (signal_frame ! nat 2), close (signal_frame ! nat 2))
        \<in> set (fst (detect_signal_points signal_frame [(0, 10)] [(0, 11)]))"
proof -
  have h: "[(0, 10)] \<noteq> ([] :: point list)" "[(0, 11)] \<noteq> ([] :: point list)"
    by simp_all
  have d: "distinct (map date signal_frame)" "2 < int (length signal_frame)"
    by (simp_all add: signal_frame_def)
  have o: "(1::int) \<le> 2" by simp
  note t = signals_at_crossings [OF h, of signal_frame]
  have c: "\<exists>(d, s)\<in>set [(0::nat, 10::real)].
             close (signal_frame ! nat (2 - 1)) < s \<and> s \<le> close (signal_frame ! nat 2)"
    by (simp add: signal_frame_def)
  have f: "fst (detect_signal_points signal_frame [(0, 10)] [(0, 11)]) = [(2, 11)]"
    using t by (simp add: signal_frame_def py_range_1_4)
  have m: "(date (signal_frame ! nat 2), close (signal_frame ! nat 2))
        \<in> set (fst (detect_signal_points signal_frame [(0, 10)] [(0, 11)]))"
    using t d c o by blast
  show ?thesis using h d f m by simp
qed

text \<open>
  Claim C7. If the support list or the resistance list is empty, the detector returns empty
  buy and sell lists, for every series.
\<close>

theorem empty_levels_no_signals:
  assumes "supports = [] \<or> resistances = []"
  shows "detect_signal_points_try df supports resistances = Inr ([], [])
    \<and> detect_signal_points df supports resistances = ([], [])"
  using assms by (auto simp: detect_signal_points_def detect_signal_points_try_def)

text \<open>The theorem at a concrete series.\<close>

theorem empty_levels_no_signals_witness:
  "([(0, 10)] = ([] :: point list) \<or> [] = ([] :: point list))
   \<and> detect_signal_points signal_frame [(0, 10)] [] = ([], [])"
  using empty_levels_no_signals [of "[(0, 10)]" "[]" signal_frame]
  by simp

lemma distinct_fst_events:
  assumes "distinct (map date df)" and "distinct is"
    and "\<And>i. i \<in> set is \<Longrightarrow> 0 \<le> i \<and> i < int (length df)"
  shows "distinct (map fst (map (event_at df) (filter P is)))"
proof -
  have "inj_on (\<lambda>i. date (df ! nat i)) (set is)"
  proof (rule inj_onI)
    fix i j assume h: "i \<in> set is" "j \<in> set is" "date (df ! nat i) = date (df ! nat j)"
    then have b: "nat i < length df" "nat j < length df" using assms(3) [of i] assms(3) [of j] by auto
    then have "nat i = nat j"
      using nth_eq_iff_index_eq [OF assms(1), of "nat i" "nat j"] h by simp
    then show "i = j" using assms(3) [of i] assms(3) [of j] h by auto
  qed
  then have "inj_on (\<lambda>i. date (df ! nat i)) (set (filter P is))"
    by (rule inj_on_subset) auto
  then have "distinct (map (\<lambda>i. date (df ! nat i)) (filter P is))"
    using assms(2) by (simp add: distinct_map)
  then show ?thesis by (simp add: event_at_def comp_def)
qed

text \<open>
  Claim C6. The check of one position against a level list appends one event when some level
  satisfies \<open>previous_close < s \<le> current_close\<close>, triggered by the first such level in
  list order (\<open>find\<close>), and nothing otherwise, however many levels match; the buy check
  and the sell check are separate runs of it. So, with the unique timestamps of a series,
  no two buy events and no two sell events of a result belong to the same position.
\<close>

theorem one_signal_per_position:
  "crossing_loop previous_close current_close ev levels signals =
      signals @ (case find (\<lambda>(d, s). previous_close < s \<and> s \<le> current_close) levels of
                   None \<Rightarrow> [] | Some l \<Rightarrow> [ev])
   \<and> (distinct (map date df) \<longrightarrow>
        distinct (map fst (fst (detect_signal_points df supports resistances))) \<and>
        distinct (map fst (snd (detect_signal_points df supports resistances))))"
proof (intro conjI impI)
  show "crossing_loop previous_close current_close ev levels signals =
      signals @ (case find (\<lambda>(d, s). previous_close < s \<and> s \<le> current_close) levels of
                   None \<Rightarrow> [] | Some l \<Rightarrow> [ev])"
    by (induction previous_close current_close ev levels signals rule: crossing_loop.induct)
      simp_all
next
  assume d: "distinct (map date df)"
  have di: "distinct (py_range 1 (int (length df)))" by (simp add: py_range_def)
  have rg: "\<And>i. i \<in> set (py_range 1 (int (length df))) \<Longrightarrow> 0 \<le> i \<and> i < int (length df)"
    by (auto simp: set_py_range)
  show "distinct (map fst (fst (detect_signal_points df supports resistances)))"
  proof (cases "supports = [] \<or> resistances = []")
    case True
    then show ?thesis by (auto simp: detect_signal_points_def detect_signal_points_try_def)
  next
    case False
    then show ?thesis
      using detect_signal_points_try_eq [of supports resistances df]
        distinct_fst_events [OF d di rg, of "crosses supports df"]
      by (simp add: detect_signal_points_def)
  qed
  show "distinct (map fst (snd (detect_signal_points df supports resistances)))"
  proof (cases "supports = [] \<or> resistances = []")
    case True
    then show ?thesis by (auto simp: detect_signal_points_def detect_signal_points_try_def)
  next
    case False
    then show ?thesis
      using detect_signal_points_try_eq [of supports resistances df]
        distinct_fst_events [OF d di rg, of "crosses resistances df"]
      by (simp add: detect_signal_points_def)
  qed
qed

text \<open>The theorem at a concrete series.\<close>

theorem one_signal_per_position_witness:
  "distinct (map date signal_frame)
   \<and> fst (detect_signal_points signal_frame [(0, 10), (1, 21 / 2)] [(0, 11)]) = [(2, 11)]
   \<and> distinct (map fst (fst (detect_signal_points signal_frame [(0, 10), (1, 21 / 2)] [(0, 11)])))"
proof -
  have d: "distinct (map date signal_frame)"
    by (simp add: signal_frame_def)
  have e: "fst (detect_signal_points signal_frame [(0, 10), (1, 21 / 2)] [(0, 11)]) = [(2, 11)]"
    by (simp add: signal_frame_def detect_signal_points_def detect_signal_points_try_def
        py_range_1_4 iloc_def to_datetime_def)
  show ?thesis
    using d e one_signal_per_position [of 0 0 "(0, 0)" "[]" "[]" signal_frame
        "[(0, 10), (1, 21 / 2)]" "[(0, 11)]"]
    by blast
qed

section \<open>Fibonacci calculator: levels\<close>

lemma column_min_Min: "col \<noteq> [] \<Longrightarrow> column_min col = Num (Min (set col))"
proof (cases col)
  case Nil
  assume "col \<noteq> []"
  with Nil show ?thesis by simp
next
  case (Cons x xs)
  show ?thesis
    unfolding Cons Min.set_eq_fold by (simp add: column_min_def)
qed

lemma column_max_Max: "col \<noteq> [] \<Longrightarrow> column_max col = Num (Max (set col))"
proof (cases col)
  case Nil
  assume "col \<noteq> []"
  with Nil show ?thesis by simp
next
  case (Cons x xs)
  show ?thesis
    unfolding Cons Max.set_eq_fold by (simp add: column_max_def)
qed

lemma fibonacci_nonempty:
  assumes "df \<noteq> []"
  shows "calculate_fibonacci_retracement df =
     (let h = Max (set (map high df)); l = Min (set (map low df))
      in [(''0.0'', Num h),
          (''0.236'', Num (h - 0.236 * (h - l))),
          (''0.382'', Num (h - 0.382 * (h - l))),
          (''0.5'', Num (h - 0.5 * (h - l))),
          (''0.618'', Num (h - 0.618 * (h - l))),
          (''0.786'', Num (h - 0.786 * (h - l))),
          (''1.0'', Num l)])"
  using assms
  by (simp add: calculate_fibonacci_retracement_def column_min_Min column_max_Max Let_def)

lemma fibonacci_empty:
  "calculate_fibonacci_retracement [] =
     [(''0.0'', NaN), (''0.236'', NaN), (''0.382'', NaN), (''0.5'', NaN),
      (''0.618'', NaN), (''0.786'', NaN), (''1.0'', NaN)]"
  by (simp add: calculate_fibonacci_retracement_def column_min_def column_max_def)

text \<open>
  Claim C3. For a non-empty series the result has exactly the seven keys
  \<open>0.0, 0.236, 0.382, 0.5, 0.618, 0.786, 1.0\<close>, in this order; the price at \<open>0.0\<close> is
  \<open>max(high)\<close>, the price at \<open>1.0\<close> is \<open>min(low)\<close>, and the price at every
  intermediate ratio \<open>r\<close> is \<open>highest - r * (highest - lowest)\<close>.
\<close>

theorem fibonacci_levels:
  assumes "df \<noteq> []"
  shows "map fst (calculate_fibonacci_retracement df) =
       [''0.0'', ''0.236'', ''0.382'', ''0.5'', ''0.618'', ''0.786'', ''1.0'']
    \<and> map_of (calculate_fibonacci_retracement df) ''0.0'' = Some (Num (Max (set (map high df))))
    \<and> map_of (calculate_fibonacci_retracement df) ''1.0'' = Some (Num (Min (set (map low df))))
    \<and> (\<forall>(key, r)\<in>set [(''0.236'', 0.236), (''0.382'', 0.382), (''0.5'', 0.5),
                       (''0.618'', 0.618), (''0.786'', 0.786)].
         map_of (calculate_fibonacci_retracement df) key =
           Some (Num (Max (set (map high df))
                      - r * (Max (set (map high df)) - Min (set (map low df))))))"
  unfolding fibonacci_nonempty [OF assms] Let_def by simp

text \<open>The theorem at a concrete series.\<close>

theorem fibonacci_levels_witness:
  "fib_frame \<noteq> []
   \<and> calculate_fibonacci_retracement fib_frame =
       [(''0.0'', Num 100), (''0.236'', Num 88.2), (''0.382'', Num 80.9), (''0.5'', Num 75),
        (''0.618'', Num 69.1), (''0.786'', Num 60.7), (''1.0'', Num 50)]
   \<and> map_of (calculate_fibonacci_retracement fib_frame) ''0.0''
        = Some (Num (Max (set (map high fib_frame))))"
proof -
  have n: "fib_frame \<noteq> []" by (simp add: fib_frame_def)
  have v: "calculate_fibonacci_retracement fib_frame =
       [(''0.0'', Num 100), (''0.236'', Num 88.2), (''0.382'', Num 80.9), (''0.5'', Num 75),
        (''0.618'', Num 69.1), (''0.786'', Num 60.7), (''1.0'', Num 50)]"
    by (simp add: fib_frame_def calculate_fibonacci_retracement_def column_min_def column_max_def)
  show ?thesis using n v fibonacci_levels [OF n] by blast
qed

text \<open>
  Claim C4. For a non-empty series with \<open>max(high) \<ge> min(low)\<close>, the level prices do not
  increase as the ratio key goes through \<open>0.0, 0.236, 0.382, 0.5, 0.618, 0.786, 1.0\<close>:
  every price is \<open>>=\<close> every later one.
\<close>

theorem fibonacci_monotone:
  assumes "df \<noteq> []" and "Max (set (map high df)) \<ge> Min (set (map low df))"
  shows "map fst (calculate_fibonacci_retracement df) =
       [''0.0'', ''0.236'', ''0.382'', ''0.5'', ''0.618'', ''0.786'', ''1.0'']
    \<and> sorted_wrt fge (map snd (calculate_fibonacci_retracement df))"
proof -
  define h where "h = Max (set (map high df))"
  define l where "l = Min (set (map low df))"
  have d: "0 \<le> h - l" using assms(2) by (simp add: h_def l_def)
  show ?thesis
    unfolding fibonacci_nonempty [OF assms(1)] Let_def h_def [symmetric] l_def [symmetric]
    using d by (simp add: field_simps)
qed

text \<open>The theorem at a concrete series.\<close>

theorem fibonacci_monotone_witness:
  "fib_frame \<noteq> [] \<and> Max (set (map high fib_frame)) \<ge> Min (set (map low fib_frame))
   \<and> sorted_wrt fge (map snd (calculate_fibonacci_retracement fib_frame))"
proof -
  have n: "fib_frame \<noteq> []" by (simp add: fib_frame_def)
  have g: "Max (set (map high fib_frame)) \<ge> Min (set (map low fib_frame))"
    by (simp add: fib_frame_def)
  show ?thesis using n g fibonacci_monotone [OF n g] by blast
qed

text \<open>
  Claim C9 as stated fails on the empty series: the minimum and the maximum of a column
  without rows are \<open>nan\<close>, nothing raises, and the result is the seven keys with the
  price \<open>nan\<close>, not the empty mapping.
\<close>

theorem fibonacci_empty_counterexample:
  "calculate_fibonacci_retracement [] \<noteq> []
   \<and> map_of (calculate_fibonacci_retracement []) ''0.5'' = Some NaN"
  by (simp add: fibonacci_empty)

text \<open>
  Claim C9, amended. The calculator returns the seven keys for every series, empty or not:
  a non-empty series yields seven numbers, an empty one yields \<open>nan\<close> at each of the
  seven keys.
\<close>

theorem fibonacci_always_seven:
  "map fst (calculate_fibonacci_retracement df) =
       [''0.0'', ''0.236'', ''0.382'', ''0.5'', ''0.618'', ''0.786'', ''1.0'']
   \<and> (df \<noteq> [] \<longrightarrow> NaN \<notin> set (map snd (calculate_fibonacci_retracement df)))
   \<and> (df = [] \<longrightarrow> map snd (calculate_fibonacci_retracement df) = replicate 7 NaN)"
proof (cases "df = []")
  case True
  then show ?thesis by (simp add: fibonacci_empty numeral_eq_Suc)
next
  case False
  then show ?thesis unfolding fibonacci_nonempty [OF False] Let_def by simp
qed

text \<open>The theorem at a concrete series.\<close>

theorem fibonacci_always_seven_witness:
  "fib_frame \<noteq> []
   \<and> NaN \<notin> set (map snd (calculate_fibonacci_retracement fib_frame))
   \<and> map snd (calculate_fibonacci_retracement []) = replicate 7 NaN"
proof -
  have n: "fib_frame \<noteq> []" by (simp add: fib_frame_def)
  show ?thesis
    using n fibonacci_always_seven [of fib_frame] fibonacci_always_seven [of "[]"]
    by blast
qed

section \<open>Swing points and ABC patterns: the merged sequence\<close>

lemma extrema_step_in_range:
  assumes "5 \<le> i" and "i < int (length df) - 5"
  shows "extrema_min_step df i (ds, ps, ts) =
           Inr (if spec_local_min (map low df) 5 i
                then (ds @ [date (df ! nat i)], ps @ [low (df ! nat i)], ts @ [''min''])
                else (ds, ps, ts))"
    and "extrema_max_step df i (ds, ps, ts) =
           Inr (if spec_local_max (map high df) 5 i
                then (ds @ [date (df ! nat i)], ps @ [high (df ! nat i)], ts @ [''max''])
                else (ds, ps, ts))"
proof -
  have g: "0 \<le> i" "i < int (length df)" "nat i < length df" using assms by auto
  have tmin: "local_min_test (map low df) 5 i = Inr (spec_local_min (map low df) 5 i)"
    using assms by (intro local_min_test_in_range) auto
  have tmax: "local_max_test (map high df) 5 i = Inr (spec_local_max (map high df) 5 i)"
    using assms by (intro local_max_test_in_range) auto
  show "extrema_min_step df i (ds, ps, ts) =
           Inr (if spec_local_min (map low df) 5 i
                then (ds @ [date (df ! nat i)], ps @ [low (df ! nat i)], ts @ [''min''])
                else (ds, ps, ts))"
    using g by (simp add: extrema_min_step_def tmin try_bind_def getitem_def)
  show "extrema_max_step df i (ds, ps, ts) =
           Inr (if spec_local_max (map high df) 5 i
                then (ds @ [date (df ! nat i)], ps @ [high (df ! nat i)], ts @ [''max''])
                else (ds, ps, ts))"
    using g by (simp add: extrema_max_step_def tmax try_bind_def getitem_def)
qed

lemma wave_step_in_range:
  assumes "5 \<le> i" and "i < int (length df) - 5"
  shows "wave_min_step df i (ws, ts) =
           Inr (if spec_local_min (map low df) 5 i
                then (ws @ [(date (df ! nat i), low (df ! nat i))], ts @ [''min''])
                else (ws, ts))"
    and "wave_max_step df i (ws, ts) =
           Inr (if spec_local_max (map high df) 5 i
                then (ws @ [(date (df ! nat i), high (df ! nat i))], ts @ [''max''])
                else (ws, ts))"
proof -
  have g: "0 \<le> i" "i < int (length df)" "nat i < length df" using assms by auto
  have tmin: "local_min_test (map low df) 5 i = Inr (spec_local_min (map low df) 5 i)"
    using assms by (intro local_min_test_in_range) auto
  have tmax: "local_max_test (map high df) 5 i = Inr (spec_local_max (map high df) 5 i)"
    using assms by (intro local_max_test_in_range) auto
  show "wave_min_step df i (ws, ts) =
           Inr (if spec_local_min (map low df) 5 i
                then (ws @ [(date (df ! nat i), low (df ! nat i))], ts @ [''min''])
                else (ws, ts))"
    using g by (simp add: wave_min_step_def tmin try_bind_def getitem_def)
  show "wave_max_step df i (ws, ts) =
           Inr (if spec_local_max (map high df) 5 i
                then (ws @ [(date (df ! nat i), high (df ! nat i))], ts @ [''max''])
                else (ws, ts))"
    using g by (simp add: wave_max_step_def tmax try_bind_def getitem_def)
qed

lemma extrema_loop_in_range:
  assumes "\<And>i. i \<in> set is \<Longrightarrow> 5 \<le> i \<and> i < int (length df) - 5"
  shows "extrema_loop df is (ds, ps, ts) =
     Inr (ds @ map fst (merged_swings df is),
          ps @ map (\<lambda>e. fst (snd e)) (merged_swings df is),
          ts @ map (\<lambda>e. snd (snd e)) (merged_swings df is))"
  using assms
proof (induction "is" arbitrary: ds ps ts)
  case Nil
  then show ?case by (simp add: merged_swings_def)
next
  case (Cons i "is")
  have r: "5 \<le> i" "i < int (length df) - 5" using Cons.prems [of i] by auto
  have ih: "\<And>ds ps ts. extrema_loop df is (ds, ps, ts) =
     Inr (ds @ map fst (merged_swings df is),
          ps @ map (\<lambda>e. fst (snd e)) (merged_swings df is),
          ts @ map (\<lambda>e. snd (snd e)) (merged_swings df is))"
    using Cons.IH Cons.prems by simp
  have m: "merged_swings df (i # is) = swing_entries df i @ merged_swings df is"
    by (simp add: merged_swings_def)
  show ?case
    unfolding m
    by (simp add: extrema_step_in_range [OF r] ih swing_entries_def)
qed

lemma waves_loop_in_range:
  assumes "\<And>i. i \<in> set is \<Longrightarrow> 5 \<le> i \<and> i < int (length df) - 5"
  shows "waves_loop df is (ws, ts) =
     Inr (ws @ map (\<lambda>e. (fst e, fst (snd e))) (merged_swings df is),
          ts @ map (\<lambda>e. snd (snd e)) (merged_swings df is))"
  using assms
proof (induction "is" arbitrary: ws ts)
  case Nil
  then show ?case by (simp add: merged_swings_def)
next
  case (Cons i "is")
  have r: "5 \<le> i" "i < int (length df) - 5" using Cons.prems [of i] by auto
  have ih: "\<And>ws ts. waves_loop df is (ws, ts) =
     Inr (ws @ map (\<lambda>e. (fst e, fst (snd e))) (merged_swings df is),
          ts @ map (\<lambda>e. snd (snd e)) (merged_swings df is))"
    using Cons.IH Cons.prems by simp
  have m: "merged_swings df (i # is) = swing_entries df i @ merged_swings df is"
    by (simp add: merged_swings_def)
  show ?case
    unfolding m
    by (simp add: wave_step_in_range [OF r] ih swing_entries_def)
qed

lemma py_index_in_range:
  "0 \<le> i \<Longrightarrow> i < int (length xs) \<Longrightarrow> py_index xs i = Inr (xs ! nat i)"
  by (simp add: py_index_def iloc_def)

lemma abc_loop_in_range:
  assumes "length ds = length ts" and "length ps = length ts"
    and "\<And>i. i \<in> set is \<Longrightarrow> 0 \<le> i \<and> i < int (length ts) - 2"
  shows "abc_loop (ds, ps, ts) is acc =
     Inr (acc @ map (\<lambda>i. triple_at ds ps (nat i)) (filter (\<lambda>i. abc_at ts (nat i)) is))"
  using assms(3)
proof (induction "is" arbitrary: acc)
  case Nil
  then show ?case by simp
next
  case (Cons i "is")
  have r: "0 \<le> i" "i < int (length ts) - 2" using Cons.prems [of i] by auto
  have n: "nat (i + 1) = nat i + 1" "nat (i + 2) = nat i + 2" using r by auto
  have t: "abc_test ts i = Inr (abc_at ts (nat i))"
    using r by (simp add: abc_test_def try_bind_def py_index_in_range abc_at_def n)
  have e: "extremum_at (ds, ps, ts) k = Inr (ds ! nat k, ps ! nat k)"
    if "0 \<le> k" "k < int (length ts)" for k
    using that assms(1,2) by (simp add: extremum_at_def try_bind_def py_index_in_range)
  have e0: "extremum_at (ds, ps, ts) i = Inr (ds ! nat i, ps ! nat i)"
    using r by (intro e) auto
  have e1: "extremum_at (ds, ps, ts) (i + 1) = Inr (ds ! (nat i + 1), ps ! (nat i + 1))"
    using r e [of "i + 1"] by (simp add: n)
  have e2: "extremum_at (ds, ps, ts) (i + 2) = Inr (ds ! (nat i + 2), ps ! (nat i + 2))"
    using r e [of "i + 2"] by (simp add: n)
  have ih: "\<And>acc. abc_loop (ds, ps, ts) is acc =
     Inr (acc @ map (\<lambda>i. triple_at ds ps (nat i)) (filter (\<lambda>i. abc_at ts (nat i)) is))"
    using Cons.IH Cons.prems by simp
  show ?case
    by (simp add: t e0 e1 e2 ih triple_at_def)
qed

lemma abc_extrema_try_eq:
  "abc_extrema_try df =
     Inr (map fst (merged_swings df (py_range 5 (int (length df) - 5))),
          map (\<lambda>e. fst (snd e)) (merged_swings df (py_range 5 (int (length df) - 5))),
          map (\<lambda>e. snd (snd e)) (merged_swings df (py_range 5 (int (length df) - 5))))"
  unfolding abc_extrema_try_def
  using extrema_loop_in_range [of "py_range 5 (int (length df) - 5)" df "[]" "[]" "[]"]
  by (simp add: set_py_range)

lemma identify_abc_patterns_try_eq:
  assumes "abc_extrema_try df = Inr (ds, ps, ts)"
  shows "length ds = length ts \<and> length ps = length ts
    \<and> identify_abc_patterns_try df =
        Inr (map (\<lambda>i. triple_at ds ps (nat i))
               (filter (\<lambda>i. abc_at ts (nat i)) (py_range 0 (int (length ts) - 2))))"
proof -
  have l: "length ds = length ts" "length ps = length ts"
    using assms unfolding abc_extrema_try_eq by auto
  have "abc_loop (ds, ps, ts) (py_range 0 (int (length ts) - 2)) [] =
      Inr (map (\<lambda>i. triple_at ds ps (nat i))
             (filter (\<lambda>i. abc_at ts (nat i)) (py_range 0 (int (length ts) - 2))))"
    using abc_loop_in_range [OF l, of "py_range 0 (int (length ts) - 2)" "[]"]
    by (simp add: set_py_range)
  then show ?thesis
    using l by (simp add: identify_abc_patterns_try_def assms try_bind_def)
qed

lemma flat_low: "map low flat_frame = replicate 12 1"
  by (simp add: flat_frame_def)

lemma flat_high: "map high flat_frame = replicate 12 2"
  by (simp add: flat_frame_def)

lemma flat_min: "spec_local_min (map low flat_frame) 5 5"
  unfolding flat_low spec_local_min_def by auto

lemma flat_max: "spec_local_max (map high flat_frame) 5 5"
  unfolding flat_high spec_local_max_def by auto

lemma py_range_5_7: "py_range 5 7 = [5, 6]"
  by (simp add: py_range_def upto.simps)

lemma py_range_1_6: "py_range 1 6 = [1, 2, 3, 4, 5]"
  by (simp add: py_range_def upto.simps)

lemma py_range_0_2: "py_range 0 2 = [0, 1]"
  by (simp add: py_range_def upto.simps)

lemma py_range_5_5: "py_range 5 5 = []"
  by (simp add: py_range_def upto.simps)

lemma flat_abc: "identify_abc_patterns flat_frame = [[(0, 2), (0, 1), (0, 2)]]"
  by (simp add: identify_abc_patterns_def identify_abc_patterns_try_def abc_extrema_try_def
      flat_frame_def py_range_5_7 py_range_1_6 py_range_0_2 extrema_min_step_def
      extrema_max_step_def local_min_test_def local_max_test_def le_at_def ge_at_def
      try_bind_def getitem_def abc_test_def extremum_at_def py_index_def iloc_def)

text \<open>
  Claim C5. The scan for swing points never raises, its three lists have the same length,
  and every pattern that \<open>identify_abc_patterns\<close> returns is the triple of the entries at
  three consecutive positions \<open>k, k + 1, k + 2\<close> of that merged sequence, whose kinds are
  \<open>max, min, max\<close>.
\<close>

theorem abc_patterns_are_consecutive_max_min_max:
  "\<exists>ds ps ts. abc_extrema_try df = Inr (ds, ps, ts)
     \<and> length ds = length ts \<and> length ps = length ts
     \<and> identify_abc_patterns_try df = Inr (identify_abc_patterns df)
     \<and> (\<forall>p\<in>set (identify_abc_patterns df).
          \<exists>k. k + 2 < length ts
            \<and> ts ! k = ''max'' \<and> ts ! (k + 1) = ''min'' \<and> ts ! (k + 2) = ''max''
            \<and> p = [(ds ! k, ps ! k), (ds ! (k + 1), ps ! (k + 1)), (ds ! (k + 2), ps ! (k + 2))])"
proof -
  obtain ds ps ts where x: "abc_extrema_try df = Inr (ds, ps, ts)"
    using abc_extrema_try_eq [of df] by blast
  note y = identify_abc_patterns_try_eq [OF x]
  have v: "identify_abc_patterns df =
      map (\<lambda>i. triple_at ds ps (nat i))
        (filter (\<lambda>i. abc_at ts (nat i)) (py_range 0 (int (length ts) - 2)))"
    using y by (simp add: identify_abc_patterns_def)
  have "\<exists>k. k + 2 < length ts
            \<and> ts ! k = ''max'' \<and> ts ! (k + 1) = ''min'' \<and> ts ! (k + 2) = ''max''
            \<and> p = [(ds ! k, ps ! k), (ds ! (k + 1), ps ! (k + 1)), (ds ! (k + 2), ps ! (k + 2))]"
    if "p \<in> set (identify_abc_patterns df)" for p
  proof -
    from that obtain i where i: "0 \<le> i" "i < int (length ts) - 2" "abc_at ts (nat i)"
        "p = triple_at ds ps (nat i)"
      unfolding v by (auto simp: set_py_range)
    have "nat i + 2 < length ts" using i(1,2) by auto
    then show ?thesis using i(3,4) unfolding abc_at_def triple_at_def by blast
  qed
  then show ?thesis using x y v by (auto simp: identify_abc_patterns_def)
qed

text \<open>The theorem at a concrete series.\<close>

theorem abc_patterns_witness:
  "[(0, 2), (0, 1), (0, 2)] \<in> set (identify_abc_patterns flat_frame)
   \<and> (\<exists>ds ps ts. abc_extrema_try flat_frame = Inr (ds, ps, ts)
        \<and> (\<exists>k. k + 2 < length ts
            \<and> ts ! k = ''max'' \<and> ts ! (k + 1) = ''min'' \<and> ts ! (k + 2) = ''max''
            \<and> [(0, 2), (0, 1), (0, 2)] =
                [(ds ! k, ps ! k), (ds ! (k + 1), ps ! (k + 1)), (ds ! (k + 2), ps ! (k + 2))]))"
proof -
  have m: "[(0, 2), (0, 1), (0, 2)] \<in> set (identify_abc_patterns flat_frame)"
    by (simp add: flat_abc)
  show ?thesis
    using m abc_patterns_are_consecutive_max_min_max [of flat_frame] by blast
qed

lemma py_range_split:
  assumes "a \<le> i" and "i < b"
  shows "py_range a b = py_range a i @ i # py_range (i + 1) b"
proof -
  have "[a..b - 1] = [a..i - 1] @ [i..b - 1]"
    using assms by (intro upto_split1) auto
  moreover have "[i..b - 1] = i # [i + 1..b - 1]"
    using assms by (intro upto_rec1) auto
  ultimately show ?thesis by (simp add: py_range_def)
qed

text \<open>
  Claim C10. When an index \<open>i\<close> of the scanned range is a local minimum of \<open>low\<close> and a
  local maximum of \<open>high\<close> at once, the merged sequence is: the entries of the indices
  before \<open>i\<close>, then the \<open>min\<close> entry of \<open>i\<close>, immediately followed by the \<open>max\<close>
  entry of \<open>i\<close>, then the entries of the later indices. This holds for the sequence of
  \<open>identify_elliot_waves\<close> and for the one \<open>identify_abc_patterns\<close> scans.
\<close>

theorem min_entry_precedes_max_entry:
  assumes "5 \<le> i" and "i < int (length df) - 5"
    and "spec_local_min (map low df) 5 i" and "spec_local_max (map high df) 5 i"
  shows "(\<exists>w0 t0 w1 t1.
            waves_loop df (py_range 5 i) ([], []) = Inr (w0, t0)
          \<and> length w0 = length t0 \<and> length w1 = length t1
          \<and> identify_elliot_waves df =
              (w0 @ [(date (df ! nat i), low (df ! nat i)), (date (df ! nat i), high (df ! nat i))] @ w1,
               t0 @ [''min'', ''max''] @ t1))
       \<and> (\<exists>d0 p0 t0 d1 p1 t1.
            extrema_loop df (py_range 5 i) ([], [], []) = Inr (d0, p0, t0)
          \<and> length d0 = length t0 \<and> length p0 = length t0
          \<and> length d1 = length t1 \<and> length p1 = length t1
          \<and> abc_extrema_try df =
              Inr (d0 @ [date (df ! nat i), date (df ! nat i)] @ d1,
                   p0 @ [low (df ! nat i), high (df ! nat i)] @ p1,
                   t0 @ [''min'', ''max''] @ t1))"
proof -
  define pre where "pre = merged_swings df (py_range 5 i)"
  define post where "post = merged_swings df (py_range (i + 1) (int (length df) - 5))"
  have s: "py_range 5 (int (length df) - 5) = py_range 5 i @ i # py_range (i + 1) (int (length df) - 5)"
    using assms(1,2) by (rule py_range_split)
  have m: "merged_swings df (py_range 5 (int (length df) - 5)) =
      pre @ [(date (df ! nat i), low (df ! nat i), ''min''),
             (date (df ! nat i), high (df ! nat i), ''max'')] @ post"
    unfolding s pre_def post_def
    using assms(3,4) by (simp add: merged_swings_def swing_entries_def)
  have rp: "\<And>k. k \<in> set (py_range 5 i) \<Longrightarrow> 5 \<le> k \<and> k < int (length df) - 5"
    using assms(2) by (auto simp: set_py_range)
  have rf: "\<And>k. k \<in> set (py_range 5 (int (length df) - 5)) \<Longrightarrow> 5 \<le> k \<and> k < int (length df) - 5"
    by (auto simp: set_py_range)
  have w0: "waves_loop df (py_range 5 i) ([], []) =
      Inr (map (\<lambda>e. (fst e, fst (snd e))) pre, map (\<lambda>e. snd (snd e)) pre)"
    using waves_loop_in_range [OF rp, where ws = "[]" and ts = "[]"] by (simp add: pre_def)
  have w: "identify_elliot_waves df =
      (map (\<lambda>e. (fst e, fst (snd e))) pre
         @ [(date (df ! nat i), low (df ! nat i)), (date (df ! nat i), high (df ! nat i))]
         @ map (\<lambda>e. (fst e, fst (snd e))) post,
       map (\<lambda>e. snd (snd e)) pre @ [''min'', ''max''] @ map (\<lambda>e. snd (snd e)) post)"
    using waves_loop_in_range [OF rf, where ws = "[]" and ts = "[]"]
    by (simp add: identify_elliot_waves_def identify_elliot_waves_try_def m)
  have e0: "extrema_loop df (py_range 5 i) ([], [], []) =
      Inr (map fst pre, map (\<lambda>e. fst (snd e)) pre, map (\<lambda>e. snd (snd e)) pre)"
    using extrema_loop_in_range [OF rp, where ds = "[]" and ps = "[]" and ts = "[]"] by (simp add: pre_def)
  have e: "abc_extrema_try df =
      Inr (map fst pre @ [date (df ! nat i), date (df ! nat i)] @ map fst post,
           map (\<lambda>e. fst (snd e)) pre @ [low (df ! nat i), high (df ! nat i)]
             @ map (\<lambda>e. fst (snd e)) post,
           map (\<lambda>e. snd (snd e)) pre @ [''min'', ''max''] @ map (\<lambda>e. snd (snd e)) post)"
    unfolding abc_extrema_try_eq m by simp
  have a: "\<exists>w0 t0 w1 t1.
            waves_loop df (py_range 5 i) ([], []) = Inr (w0, t0)
          \<and> length w0 = length t0 \<and> length w1 = length t1
          \<and> identify_elliot_waves df =
              (w0 @ [(date (df ! nat i), low (df ! nat i)), (date (df ! nat i), high (df ! nat i))] @ w1,
               t0 @ [''min'', ''max''] @ t1)"
    apply (rule exI [of _ "map (\<lambda>e. (fst e, fst (snd e))) pre"])
    apply (rule exI [of _ "map (\<lambda>e. snd (snd e)) pre"])
    apply (rule exI [of _ "map (\<lambda>e. (fst e, fst (snd e))) post"])
    apply (rule exI [of _ "map (\<lambda>e. snd (snd e)) post"])
    apply (simp add: w0 w)
    done
  have b: "\<exists>d0 p0 t0 d1 p1 t1.
            extrema_loop df (py_range 5 i) ([], [], []) = Inr (d0, p0, t0)
          \<and> length d0 = length t0 \<and> length p0 = length t0
          \<and> length d1 = length t1 \<and> length p1 = length t1
          \<and> abc_extrema_try df =
              Inr (d0 @ [date (df ! nat i), date (df ! nat i)] @ d1,
                   p0 @ [low (df ! nat i), high (df ! nat i)] @ p1,
                   t0 @ [''min'', ''max''] @ t1)"
    apply (rule exI [of _ "map fst pre"])
    apply (rule exI [of _ "map (\<lambda>e. fst (snd e)) pre"])
    apply (rule exI [of _ "map (\<lambda>e. snd (snd e)) pre"])
    apply (rule exI [of _ "map fst post"])
    apply (rule exI [of _ "map (\<lambda>e. fst (snd e)) post"])
    apply (rule exI [of _ "map (\<lambda>e. snd (snd e)) post"])
    apply (simp add: e0 e)
    done
  show ?thesis using a b by (rule conjI)
qed

text \<open>The theorem at a concrete series.\<close>

theorem min_entry_precedes_max_entry_witness:
  "(5::int) \<le> 5 \<and> 5 < int (length flat_frame) - 5
   \<and> spec_local_min (map low flat_frame) 5 5 \<and> spec_local_max (map high flat_frame) 5 5
   \<and> waves_loop flat_frame (py_range 5 5) ([], []) = Inr ([], [])
   \<and> (\<exists>w1 t1. identify_elliot_waves flat_frame =
         ([(date (flat_frame ! 5), low (flat_frame ! 5)), (date (flat_frame ! 5), high (flat_frame ! 5))] @ w1,
          [''min'', ''max''] @ t1))"
proof -
  have h1: "(5::int) \<le> 5" by simp
  have h2: "5 < int (length flat_frame) - 5" by (simp add: flat_frame_def)
  have z: "waves_loop flat_frame (py_range 5 5) ([], []) = Inr ([], [])"
    by (simp add: py_range_5_5)
  from min_entry_precedes_max_entry [OF h1 h2 flat_min flat_max]
  obtain w0 t0 w1 t1 where
    "waves_loop flat_frame (py_range 5 5) ([], []) = Inr (w0, t0)"
    "identify_elliot_waves flat_frame =
       (w0 @ [(date (flat_frame ! nat 5), low (flat_frame ! nat 5)),
              (date (flat_frame ! nat 5), high (flat_frame ! nat 5))] @ w1,
        t0 @ [''min'', ''max''] @ t1)"
    by blast
  then have "identify_elliot_waves flat_frame =
       ([(date (flat_frame ! 5), low (flat_frame ! 5)),
         (date (flat_frame ! 5), high (flat_frame ! 5))] @ w1,
        [''min'', ''max''] @ t1)"
    using z by simp
  then show ?thesis using h1 h2 flat_min flat_max z by blast
qed

section \<open>Chart composer: exceptions\<close>

lemma keeps_traces_refl: "keeps_traces fig fig"
  by (simp add: keeps_traces_def)

lemma keeps_traces_trans:
  "keeps_traces a b \<Longrightarrow> keeps_traces b c \<Longrightarrow> keeps_traces a c"
  by (auto simp: keeps_traces_def)

lemma keeps_traces_add_shape: "keeps_traces fig (add_shape fig s)"
  by (simp add: keeps_traces_def add_shape_def)

lemma keeps_traces_add_annotation: "keeps_traces fig (add_annotation fig a)"
  by (simp add: keeps_traces_def add_annotation_def)

lemma keeps_traces_add_trace: "keeps_traces fig (add_trace fig t row)"
  by (simp add: keeps_traces_def add_trace_def)

lemma keeps_traces_level_lines:
  "keeps_traces fig (figure_after (level_lines df color levels fig))"
proof (induction df color levels fig rule: level_lines.induct)
  case (1 df color fig)
  then show ?case by (simp add: figure_after_def keeps_traces_refl)
next
  case (2 df color d price rest fig)
  show ?case
  proof (cases "iloc (map date df) (- 1)")
    case (Inl e)
    then show ?thesis by (simp add: figure_after_def keeps_traces_refl)
  next
    case (Inr x1)
    have "keeps_traces fig (add_shape fig (Line d (Num price) x1 (Num price) color ''dash''))"
      by (rule keeps_traces_add_shape)
    from keeps_traces_trans [OF this 2 [OF Inr]] show ?thesis
      by (simp add: Inr)
  qed
qed

lemma keeps_traces_fibonacci_lines:
  "keeps_traces fig (figure_after (fibonacci_lines df levels fig))"
proof (induction df levels fig rule: fibonacci_lines.induct)
  case (1 df fig)
  then show ?case by (simp add: figure_after_def keeps_traces_refl)
next
  case (2 df level price rest fig)
  show ?case
  proof (cases "iloc (map date df) 0")
    case (Inl e)
    then show ?thesis by (simp add: figure_after_def keeps_traces_refl)
  next
    case x0: (Inr x0)
    show ?thesis
    proof (cases "iloc (map date df) (- 1)")
      case (Inl e)
      then show ?thesis by (simp add: x0 figure_after_def keeps_traces_refl)
    next
      case x1: (Inr x1)
      have "keeps_traces fig (add_shape fig (Line x0 price x1 price ''purple'' ''dot''))"
        by (rule keeps_traces_add_shape)
      moreover have "keeps_traces (add_shape fig (Line x0 price x1 price ''purple'' ''dot''))
          (add_annotation (add_shape fig (Line x0 price x1 price ''purple'' ''dot''))
             (Annotation (XDate x0) price (''Fib '' @ level)))"
        by (rule keeps_traces_add_annotation)
      ultimately have k: "keeps_traces fig
          (add_annotation (add_shape fig (Line x0 price x1 price ''purple'' ''dot''))
             (Annotation (XDate x0) price (''Fib '' @ level)))"
        by (rule keeps_traces_trans)
      from keeps_traces_trans [OF k 2 [OF x0 x1 x0]] show ?thesis
        by (simp add: x0 x1)
    qed
  qed
qed

lemma keeps_traces_wave_markers: "keeps_traces fig (wave_markers i ws fig)"
proof (induction i ws fig rule: wave_markers.induct)
  case (1 i fig)
  then show ?case by (simp add: keeps_traces_refl)
next
  case (2 i d price wave_type rest fig)
  have "keeps_traces fig
      (add_trace fig
          (Scatter [d] [price] ''markers''
             (Marker ''circle'' 8 (if wave_type = ''min'' then ''blue'' else ''orange'') None)
             [] (''Wave '' @ str_nat (i + 1))) 1)"
    by (rule keeps_traces_add_trace)
  from keeps_traces_trans [OF this 2] show ?case
    by (simp del: str_nat.simps)
qed

lemma keeps_traces_abc_traces:
  "keeps_traces fig (figure_after (abc_traces i patterns fig))"
proof (induction i patterns fig rule: abc_traces.induct)
  case (1 i fig)
  then show ?case by (simp add: figure_after_def keeps_traces_refl)
next
  case (2 i pattern rest fig)
  show ?case
  proof (cases "py_index pattern 0")
    case (Inl e)
    then show ?thesis by (simp add: figure_after_def keeps_traces_refl)
  next
    case a: (Inr a)
    obtain a_date a_price where a': "a = (a_date, a_price)" by (cases a)
    show ?thesis
    proof (cases "py_index pattern 1")
      case (Inl e)
      then show ?thesis by (simp add: a a' figure_after_def keeps_traces_refl)
    next
      case b: (Inr b)
      obtain b_date b_price where b': "b = (b_date, b_price)" by (cases b)
      show ?thesis
      proof (cases "py_index pattern 2")
        case (Inl e)
        then show ?thesis by (simp add: a a' b b' figure_after_def keeps_traces_refl)
      next
        case c: (Inr c)
        obtain c_date c_price where c': "c = (c_date, c_price)" by (cases c)
        have "keeps_traces fig
            (add_trace fig
               (Scatter [a_date, b_date, c_date] [a_price, b_price, c_price]
                  ''lines+markers+text'' (Marker ''circle'' 10 ''cyan'' None)
                  [''A'', ''B'', ''C''] (''ABC Pattern '' @ str_nat (i + 1))) 1)"
          by (rule keeps_traces_add_trace)
        from keeps_traces_trans
          [OF this 2 [OF a [unfolded a'] refl b [unfolded b'] refl c [unfolded c'] refl]]
        show ?thesis
          by (simp add: a a' b b' c c' del: str_nat.simps)
      qed
    qed
  qed
qed

lemma keeps_traces_buy_markers: "keeps_traces fig (buy_markers signals fig)"
  by (simp add: buy_markers_def keeps_traces_refl keeps_traces_add_trace)

lemma keeps_traces_sell_markers: "keeps_traces fig (sell_markers signals fig)"
  by (simp add: sell_markers_def keeps_traces_refl keeps_traces_add_trace)

lemma keeps_traces_add_indicators:
  "keeps_traces fig (figure_after (add_indicators df fig))"
proof -
  obtain supports resistances where sr: "calculate_support_resistance df 10 = (supports, resistances)"
    by (cases "calculate_support_resistance df 10")
  obtain waves wave_types where w: "identify_elliot_waves df = (waves, wave_types)"
    by (cases "identify_elliot_waves df")
  obtain buy_signals sell_signals where
    b: "detect_signal_points df supports resistances = (buy_signals, sell_signals)"
    by (cases "detect_signal_points df supports resistances")
  have l1: "keeps_traces fig (figure_after (level_lines df ''green'' supports fig))"
    by (rule keeps_traces_level_lines)
  show ?thesis
  proof (cases "level_lines df ''green'' supports fig")
    case (Inl x)
    then have "add_indicators df fig = level_lines df ''green'' supports fig"
      by (simp add: add_indicators_def sr)
    then show ?thesis using l1 by simp
  next
    case f1: (Inr fig1)
    have k1: "keeps_traces fig fig1"
      using l1 by (simp add: f1 figure_after_def)
    have l2: "keeps_traces fig1 (figure_after (level_lines df ''red'' resistances fig1))"
      by (rule keeps_traces_level_lines)
    show ?thesis
    proof (cases "level_lines df ''red'' resistances fig1")
      case (Inl x)
      then have "add_indicators df fig = level_lines df ''red'' resistances fig1"
        by (simp add: add_indicators_def sr f1)
      then show ?thesis using keeps_traces_trans [OF k1 l2] by simp
    next
      case f2: (Inr fig2)
      have k2: "keeps_traces fig fig2"
        using keeps_traces_trans [OF k1 l2] by (simp add: f2 figure_after_def)
      have l3: "keeps_traces fig2
          (figure_after (fibonacci_lines df (calculate_fibonacci_retracement df) fig2))"
        by (rule keeps_traces_fibonacci_lines)
      show ?thesis
      proof (cases "fibonacci_lines df (calculate_fibonacci_retracement df) fig2")
        case (Inl x)
        then have "add_indicators df fig =
            fibonacci_lines df (calculate_fibonacci_retracement df) fig2"
          by (simp add: add_indicators_def sr f1 f2)
        then show ?thesis using keeps_traces_trans [OF k2 l3] by simp
      next
        case f3: (Inr fig3)
        have k3: "keeps_traces fig fig3"
          using keeps_traces_trans [OF k2 l3] by (simp add: f3 figure_after_def)
        define fig4 where "fig4 = wave_markers 0 (zip waves wave_types) fig3"
        have k4: "keeps_traces fig fig4"
          unfolding fig4_def by (rule keeps_traces_trans [OF k3 keeps_traces_wave_markers])
        have l5: "keeps_traces fig4 (figure_after (abc_traces 0 (identify_abc_patterns df) fig4))"
          by (rule keeps_traces_abc_traces)
        show ?thesis
        proof (cases "abc_traces 0 (identify_abc_patterns df) fig4")
          case (Inl x)
          then have "add_indicators df fig = abc_traces 0 (identify_abc_patterns df) fig4"
            by (simp add: add_indicators_def sr w f1 f2 f3 fig4_def)
          then show ?thesis using keeps_traces_trans [OF k4 l5] by simp
        next
          case f5: (Inr fig5)
          have k5: "keeps_traces fig fig5"
            using keeps_traces_trans [OF k4 l5] by (simp add: f5 figure_after_def)
          have k6: "keeps_traces fig (buy_markers buy_signals fig5)"
            by (rule keeps_traces_trans [OF k5 keeps_traces_buy_markers])
          have k7: "keeps_traces fig (sell_markers sell_signals (buy_markers buy_signals fig5))"
            by (rule keeps_traces_trans [OF k6 keeps_traces_sell_markers])
          have "add_indicators df fig =
              Inr (sell_markers sell_signals (buy_markers buy_signals fig5))"
            using f5 by (simp add: add_indicators_def sr w b f1 f2 f3 fig4_def)
          then show ?thesis using k7 by (simp add: figure_after_def)
        qed
      qed
    qed
  qed
qed

lemma traces_base_chart:
  "traces (base_chart df) =
     [(Candlestick (map date df) (map open_price df) (map high df) (map low df)
         (map close df) ''Price'', 1),
      (Bar (map date df) (map volume df) ''Volume'' ''rgba(0, 0, 255, 0.5)'', 2)]"
  by (simp add: base_chart_def add_trace_def empty_figure_def)

text \<open>
  Claim C8. \<open>create_chart\<close> returns a figure on every input of the model. The outer
  block raises exactly on a frame that lacks a column (\<open>KeyError\<close>), on
  \<^verbatim>\<open>crypto_info = None\<close> (\<open>AttributeError\<close>) and when the title formatting raises;
  the result is then the placeholder whose single annotation carries
  \<open>Error creating chart: e\<close>. Otherwise the result is the figure of the block, whose first
  two traces are the candlestick and the volume bars. An exception of the overlays is
  caught: when the rest of the block does not raise, the figure returned has the traces
  the overlays had added until then, the two base traces first.
\<close>

theorem chart_composer_never_raises:
  "(\<forall>e. create_chart_try txt frame ticker crypto_info technical_indicators = Inl e \<longrightarrow>
        create_chart txt frame ticker crypto_info technical_indicators =
          \<lparr>traces = [], shapes = [],
           annotations = [Annotation (XNum 0.5) (Num 0.5)
                            (''Error creating chart: '' @ str_exc txt e)],
           layout = None\<rparr>)
   \<and> (\<forall>e. create_chart_try txt frame ticker crypto_info technical_indicators = Inl e \<longleftrightarrow>
          (frame = Missing_column \<and> e = KeyError)
        \<or> (\<exists>df. frame = Frame df \<and> crypto_info = None \<and> e = AttributeError)
        \<or> (\<exists>df info. frame = Frame df \<and> crypto_info = Some info
                     \<and> chart_title txt ticker info = Inl e))
   \<and> (\<forall>fig. create_chart_try txt frame ticker crypto_info technical_indicators = Inr fig \<longrightarrow>
        create_chart txt frame ticker crypto_info technical_indicators = fig
        \<and> (\<exists>df overlays. frame = Frame df \<and> traces fig =
              [(Candlestick (map date df) (map open_price df) (map high df) (map low df)
                  (map close df) ''Price'', 1),
               (Bar (map date df) (map volume df) ''Volume'' ''rgba(0, 0, 255, 0.5)'', 2)]
              @ overlays))
   \<and> (\<forall>df e f info t. frame = Frame df \<and> technical_indicators
          \<and> add_indicators df (base_chart df) = Inl (e, f)
          \<and> crypto_info = Some info \<and> chart_title txt ticker info = Inr t \<longrightarrow>
        create_chart_try txt frame ticker crypto_info technical_indicators =
          Inr (create_chart txt frame ticker crypto_info technical_indicators)
        \<and> traces (create_chart txt frame ticker crypto_info technical_indicators) = traces f
        \<and> (\<exists>overlays. traces f =
              [(Candlestick (map date df) (map open_price df) (map high df) (map low df)
                  (map close df) ''Price'', 1),
               (Bar (map date df) (map volume df) ''Volume'' ''rgba(0, 0, 255, 0.5)'', 2)]
              @ overlays))"
proof (intro conjI allI impI)
  fix e
  assume "create_chart_try txt frame ticker crypto_info technical_indicators = Inl e"
  then show "create_chart txt frame ticker crypto_info technical_indicators =
          \<lparr>traces = [], shapes = [],
           annotations = [Annotation (XNum 0.5) (Num 0.5)
                            (''Error creating chart: '' @ str_exc txt e)],
           layout = None\<rparr>"
    by (simp add: create_chart_def error_chart_def add_annotation_def empty_figure_def)
next
  fix e
  show "create_chart_try txt frame ticker crypto_info technical_indicators = Inl e \<longleftrightarrow>
          (frame = Missing_column \<and> e = KeyError)
        \<or> (\<exists>df. frame = Frame df \<and> crypto_info = None \<and> e = AttributeError)
        \<or> (\<exists>df info. frame = Frame df \<and> crypto_info = Some info
                     \<and> chart_title txt ticker info = Inl e)"
  proof (cases frame)
    case Missing_column
    then show ?thesis by (auto simp: create_chart_try_def)
  next
    case (Frame df)
    show ?thesis
    proof (cases crypto_info)
      case None
      then show ?thesis using Frame by (auto simp: create_chart_try_def Let_def)
    next
      case (Some info)
      then show ?thesis
        using Frame
        by (cases "chart_title txt ticker info")
          (auto simp: create_chart_try_def Let_def try_bind_def)
    qed
  qed
next
  fix fig
  assume a: "create_chart_try txt frame ticker crypto_info technical_indicators = Inr fig"
  then show "create_chart txt frame ticker crypto_info technical_indicators = fig"
    by (simp add: create_chart_def)
  obtain df where d: "frame = Frame df"
    using a by (cases frame) (simp_all add: create_chart_try_def)
  obtain info where i: "crypto_info = Some info"
    using a d by (cases crypto_info) (simp_all add: create_chart_try_def Let_def)
  obtain t where t: "chart_title txt ticker info = Inr t"
    using a d i
    by (cases "chart_title txt ticker info")
      (simp_all add: create_chart_try_def Let_def try_bind_def)
  have k: "keeps_traces (base_chart df)
      (if technical_indicators then figure_after (add_indicators df (base_chart df))
       else base_chart df)"
    by (simp add: keeps_traces_refl keeps_traces_add_indicators)
  have "traces fig = traces (if technical_indicators
            then figure_after (add_indicators df (base_chart df)) else base_chart df)"
    using a d i t by (auto simp: create_chart_try_def Let_def try_bind_def update_layout_def)
  then have "\<exists>overlays. traces fig =
              [(Candlestick (map date df) (map open_price df) (map high df) (map low df)
                  (map close df) ''Price'', 1),
               (Bar (map date df) (map volume df) ''Volume'' ''rgba(0, 0, 255, 0.5)'', 2)]
              @ overlays"
    using k unfolding keeps_traces_def traces_base_chart by simp
  then show "\<exists>df overlays. frame = Frame df \<and> traces fig =
              [(Candlestick (map date df) (map open_price df) (map high df) (map low df)
                  (map close df) ''Price'', 1),
               (Bar (map date df) (map volume df) ''Volume'' ''rgba(0, 0, 255, 0.5)'', 2)]
              @ overlays"
    using d by blast
next
  fix df e f info t
  assume a: "frame = Frame df \<and> technical_indicators
          \<and> add_indicators df (base_chart df) = Inl (e, f)
          \<and> crypto_info = Some info \<and> chart_title txt ticker info = Inr t"
  then show "create_chart_try txt frame ticker crypto_info technical_indicators =
          Inr (create_chart txt frame ticker crypto_info technical_indicators)"
    by (simp add: create_chart_def create_chart_try_def Let_def try_bind_def)
  show "traces (create_chart txt frame ticker crypto_info technical_indicators) = traces f"
    using a by (simp add: create_chart_def create_chart_try_def Let_def try_bind_def
        figure_after_def update_layout_def)
  have "keeps_traces (base_chart df) (figure_after (add_indicators df (base_chart df)))"
    by (rule keeps_traces_add_indicators)
  then show "\<exists>overlays. traces f =
              [(Candlestick (map date df) (map open_price df) (map high df) (map low df)
                  (map close df) ''Price'', 1),
               (Bar (map date df) (map volume df) ''Volume'' ''rgba(0, 0, 255, 0.5)'', 2)]
              @ overlays"
    using a unfolding keeps_traces_def traces_base_chart by (simp add: figure_after_def)
qed

lemma add_indicators_empty_frame:
  "add_indicators [] (base_chart []) = Inl (IndexError, base_chart [])"
  by (simp add: add_indicators_def calculate_support_resistance_def
      calculate_support_resistance_try_def py_range_def try_bind_def
      calculate_fibonacci_retracement_def column_min_def column_max_def iloc_def)

lemma chart_title_no_info:
  "chart_title plain_text ''BTC-USD'' Map.empty =
     Inr ''BTC-USD (BTC-USD) | Market Cap: N/A | Supply: N/A''"
  by (simp add: chart_title_def dict_get_def truthy_def is_number_def try_bind_def py_str_def)

lemma chart_title_huge_cap:
  "chart_title plain_text ''BTC-USD'' huge_cap_info = Inl OverflowError"
  by (simp add: chart_title_def huge_cap_info_def dict_get_def truthy_def is_number_def
      try_bind_def format_number_def)

text \<open>
  The theorem on a frame without a column, on \<^verbatim>\<open>crypto_info = None\<close>, on a market
  capitalisation of \<open>2^1024\<close>, and on an empty series, where the overlays raise
  \<^verbatim>\<open>IndexError\<close> and the base chart is returned.
\<close>

theorem chart_composer_never_raises_witness:
  "create_chart plain_text Missing_column ''BTC-USD'' (Some Map.empty) True =
       \<lparr>traces = [], shapes = [],
        annotations = [Annotation (XNum 0.5) (Num 0.5)
                         (''Error creating chart: '' @ str_exc plain_text KeyError)],
        layout = None\<rparr>
   \<and> create_chart plain_text (Frame []) ''BTC-USD'' None True =
       \<lparr>traces = [], shapes = [],
        annotations = [Annotation (XNum 0.5) (Num 0.5)
                         (''Error creating chart: '' @ str_exc plain_text AttributeError)],
        layout = None\<rparr>
   \<and> create_chart plain_text (Frame []) ''BTC-USD'' (Some huge_cap_info) True =
       \<lparr>traces = [], shapes = [],
        annotations = [Annotation (XNum 0.5) (Num 0.5)
                         (''Error creating chart: '' @ str_exc plain_text OverflowError)],
        layout = None\<rparr>
   \<and> add_indicators [] (base_chart []) = Inl (IndexError, base_chart [])
   \<and> create_chart_try plain_text (Frame []) ''BTC-USD'' (Some Map.empty) True =
       Inr (create_chart plain_text (Frame []) ''BTC-USD'' (Some Map.empty) True)
   \<and> traces (create_chart plain_text (Frame []) ''BTC-USD'' (Some Map.empty) True) =
       [(Candlestick [] [] [] [] [] ''Price'', 1),
        (Bar [] [] ''Volume'' ''rgba(0, 0, 255, 0.5)'', 2)]"
proof -
  note t1 = chart_composer_never_raises
    [of plain_text Missing_column "''BTC-USD''" "Some Map.empty" True]
  note t2 = chart_composer_never_raises [of plain_text "Frame []" "''BTC-USD''" None True]
  note t3 = chart_composer_never_raises
    [of plain_text "Frame []" "''BTC-USD''" "Some huge_cap_info" True]
  note t4 = chart_composer_never_raises
    [of plain_text "Frame []" "''BTC-USD''" "Some Map.empty" True]
  have r1: "create_chart_try plain_text Missing_column ''BTC-USD'' (Some Map.empty) True
      = Inl KeyError"
    using t1 by blast
  have e1: "create_chart plain_text Missing_column ''BTC-USD'' (Some Map.empty) True =
       \<lparr>traces = [], shapes = [],
        annotations = [Annotation (XNum 0.5) (Num 0.5)
                         (''Error creating chart: '' @ str_exc plain_text KeyError)],
        layout = None\<rparr>"
    using t1 r1 by blast
  have r2: "create_chart_try plain_text (Frame []) ''BTC-USD'' None True = Inl AttributeError"
    using t2 by blast
  have e2: "create_chart plain_text (Frame []) ''BTC-USD'' None True =
       \<lparr>traces = [], shapes = [],
        annotations = [Annotation (XNum 0.5) (Num 0.5)
                         (''Error creating chart: '' @ str_exc plain_text AttributeError)],
        layout = None\<rparr>"
    using t2 r2 by blast
  have r3: "create_chart_try plain_text (Frame []) ''BTC-USD'' (Some huge_cap_info) True
      = Inl OverflowError"
    using t3 chart_title_huge_cap by blast
  have e3: "create_chart plain_text (Frame []) ''BTC-USD'' (Some huge_cap_info) True =
       \<lparr>traces = [], shapes = [],
        annotations = [Annotation (XNum 0.5) (Num 0.5)
                         (''Error creating chart: '' @ str_exc plain_text OverflowError)],
        layout = None\<rparr>"
    using t3 r3 by blast
  have e4: "create_chart_try plain_text (Frame []) ''BTC-USD'' (Some Map.empty) True =
       Inr (create_chart plain_text (Frame []) ''BTC-USD'' (Some Map.empty) True)
     \<and> traces (create_chart plain_text (Frame []) ''BTC-USD'' (Some Map.empty) True) =
       traces (base_chart [])"
    using t4 add_indicators_empty_frame chart_title_no_info by blast
  have b: "traces (base_chart []) =
       [(Candlestick [] [] [] [] [] ''Price'', 1),
        (Bar [] [] ''Volume'' ''rgba(0, 0, 255, 0.5)'', 2)]"
    by (simp add: base_chart_def add_trace_def empty_figure_def)
  show ?thesis
    using e1 e2 e3 add_indicators_empty_frame e4 unfolding b by blast
qed

end
